theory Spec2Isabelle
  imports Main "HOL-Library.Word"
begin

unbundle bit_operations_syntax

section \<open>Conventions of the embedding\<close>

text \<open>
  A C string is the list of its characters before the terminating NUL. Reading a string
  at an index at or past its end yields the terminator, as it does in the zero-filled
  buffers of the program. The fixed sizes of the line and word buffers (82 characters)
  and of the two arrays (924 words) are not part of the model: where the C program would
  write past one of them the model simply continues. The array of 32 characters that
  holds the name of a label is modelled, together with the fields that follow it in the
  node (section label\_list.c).

  The enumeration \<^verbatim>\<open>bool\<close> of setting.h numbers TRUE as 0 and FALSE as 1, but the
  program only ever compares such values with the constants TRUE and FALSE, so they are
  modelled by the truth values of HOL.

  The counters and parameters of C type \<^verbatim>\<open>int\<close> are modelled by unbounded integers
  (they stay far below the 32-bit range in any run); the address stored in a label node
  is a 32-bit word read as a signed number, so that the addition to it wraps around as
  on the machine. \<^verbatim>\<open>unsigned int\<close> is modelled by 32-bit words.

  A file is the text it holds. A loop \<^verbatim>\<open>while (update_next_line() != NULL)\<close> is the
  fold of its body over the lines that \<^verbatim>\<open>fgets\<close> delivers. Of what the program
  prints, only the diagnostics are kept. One source file is translated, starting from
  the initial values of the static variables.
\<close>

definition NUL :: char where
  "NUL = CHR 0x00"

definition NEWLINE :: char where
  "NEWLINE = CHR 0x0A"

definition TAB :: char where
  "TAB = CHR 0x09"

definition SPACE :: char where
  "SPACE = CHR 0x20"

definition cnth :: "string \<Rightarrow> nat \<Rightarrow> char" where
  "cnth text i = (if i < length text then text ! i else NUL)"

text \<open>The classification functions of ctype.h in the C locale.\<close>

definition isdigit :: "char \<Rightarrow> bool" where
  "isdigit c = (48 \<le> (of_char c :: nat) \<and> (of_char c :: nat) \<le> 57)"

definition isalpha :: "char \<Rightarrow> bool" where
  "isalpha c = ((65 \<le> (of_char c :: nat) \<and> (of_char c :: nat) \<le> 90) \<or>
                (97 \<le> (of_char c :: nat) \<and> (of_char c :: nat) \<le> 122))"

section \<open>text\_tool.c\<close>

subsection \<open>Enumerations of text\_tool.h\<close>

datatype instruction_type =
  MOV | CMP | ADD | SUB | NOT_OP | CLR | LEA | INC | DEC | JMP | BNE | RED | PRN | JSR | RTS | STOP
  | NOT_INSTRUCTION

fun instruction_type_value :: "instruction_type \<Rightarrow> nat" where
  "instruction_type_value MOV = 0"
| "instruction_type_value CMP = 1"
| "instruction_type_value ADD = 2"
| "instruction_type_value SUB = 3"
| "instruction_type_value NOT_OP = 4"
| "instruction_type_value CLR = 5"
| "instruction_type_value LEA = 6"
| "instruction_type_value INC = 7"
| "instruction_type_value DEC = 8"
| "instruction_type_value JMP = 9"
| "instruction_type_value BNE = 10"
| "instruction_type_value RED = 11"
| "instruction_type_value PRN = 12"
| "instruction_type_value JSR = 13"
| "instruction_type_value RTS = 14"
| "instruction_type_value STOP = 15"
| "instruction_type_value NOT_INSTRUCTION = 16"

datatype addressing_method = NOT_EXIST | IMMEDIATE | DIRECT | REGISTER

fun addressing_method_value :: "addressing_method \<Rightarrow> nat" where
  "addressing_method_value NOT_EXIST = 0"
| "addressing_method_value IMMEDIATE = 1"
| "addressing_method_value DIRECT = 3"
| "addressing_method_value REGISTER = 5"

datatype encoding_type = ABSOLUTE | EXTERNAL | RELOCATABLE

fun encoding_type_value :: "encoding_type \<Rightarrow> nat" where
  "encoding_type_value ABSOLUTE = 0"
| "encoding_type_value EXTERNAL = 1"
| "encoding_type_value RELOCATABLE = 2"

datatype line_status = STATUS_DATA | STATUS_STRING | STATUS_CODE | STATUS_EXTERN | STATUS_ENTRY

subsection \<open>Numbers, registers and reserved words\<close>

function is_number_loop :: "string \<Rightarrow> nat \<Rightarrow> bool" where
  "is_number_loop text i =
     (if cnth text i \<noteq> NUL \<and> cnth text i \<noteq> NEWLINE
      then (if \<not> isdigit (cnth text i) then False else is_number_loop text (i + 1))
      else True)"
  by pat_completeness auto
termination
  by (relation "measure (\<lambda>(text, i). length text - i)") (auto simp: cnth_def split: if_splits)

definition is_number :: "string \<Rightarrow> bool" where
  "is_number text =
     (let i = (if cnth text 0 = CHR ''+'' \<or> cnth text 0 = CHR ''-'' then 1 else 0)
      in is_number_loop text i)"

definition is_register :: "string \<Rightarrow> bool" where
  "is_register text =
     (text = ''@r1'' \<or> text = ''@r2'' \<or> text = ''@r3'' \<or> text = ''@r4'' \<or>
      text = ''@r5'' \<or> text = ''@r6'' \<or> text = ''@r7'' \<or> text = ''@r0'')"

definition is_name_a_reserved_word :: "string \<Rightarrow> bool" where
  "is_name_a_reserved_word name =
     (if name = ''.data'' then True
      else if name = ''.string'' then True
      else if name = ''.entry'' then True
      else if name = ''.extern'' then True
      else if name = ''@r0'' then True
      else if name = ''@r2'' then True
      else if name = ''@r3'' then True
      else if name = ''@r4'' then True
      else if name = ''@r5'' then True
      else if name = ''@r6'' then True
      else if name = ''@r7'' then True
      else if name = ''mov'' then True
      else if name = ''cmp'' then True
      else if name = ''add'' then True
      else if name = ''sub'' then True
      else if name = ''not'' then True
      else if name = ''clr'' then True
      else if name = ''lea'' then True
      else if name = ''inc'' then True
      else if name = ''dec'' then True
      else if name = ''jmp'' then True
      else if name = ''bne'' then True
      else if name = ''red'' then True
      else if name = ''prn'' then True
      else if name = ''jsr'' then True
      else if name = ''rts'' then True
      else if name = ''stop'' then True
      else False)"

definition MAX_NAME_LABEL_LENGTH :: nat where
  "MAX_NAME_LABEL_LENGTH = 32"

text \<open>
  The loop of \<^verbatim>\<open>is_label_name_valid\<close>: \<open>None\<close> is the early \<^verbatim>\<open>return FALSE\<close> inside
  the loop, \<open>Some n\<close> is the value of \<^verbatim>\<open>count_chars\<close> when the loop is left.
\<close>

function is_label_name_valid_loop :: "string \<Rightarrow> nat \<Rightarrow> nat \<Rightarrow> nat option" where
  "is_label_name_valid_loop name_label i count_chars =
     (if cnth name_label i \<noteq> NEWLINE \<and> cnth name_label i \<noteq> NUL
         \<and> count_chars \<le> MAX_NAME_LABEL_LENGTH
      then (if \<not> isalpha (cnth name_label i) \<and> \<not> isdigit (cnth name_label i) then None
            else is_label_name_valid_loop name_label (i + 1) (count_chars + 1))
      else Some count_chars)"
  by pat_completeness auto
termination
  by (relation "measure (\<lambda>(name_label, i, count_chars). Suc MAX_NAME_LABEL_LENGTH - count_chars)")
     auto

definition is_label_name_valid :: "string \<Rightarrow> bool" where
  "is_label_name_valid name_label =
     (if is_name_a_reserved_word name_label then False
      else if \<not> isalpha (cnth name_label 0) then False
      else (case is_label_name_valid_loop name_label 0 0 of
              None \<Rightarrow> False
            | Some count_chars \<Rightarrow> (if count_chars = MAX_NAME_LABEL_LENGTH then False else True)))"

definition get_instruction_type :: "string \<Rightarrow> instruction_type" where
  "get_instruction_type word =
     (if word = ''mov'' then MOV
      else if word = ''cmp'' then CMP
      else if word = ''add'' then ADD
      else if word = ''sub'' then SUB
      else if word = ''not'' then NOT_OP
      else if word = ''clr'' then CLR
      else if word = ''lea'' then LEA
      else if word = ''inc'' then INC
      else if word = ''dec'' then DEC
      else if word = ''jmp'' then JMP
      else if word = ''bne'' then BNE
      else if word = ''red'' then RED
      else if word = ''prn'' then PRN
      else if word = ''jsr'' then JSR
      else if word = ''rts'' then RTS
      else if word = ''stop'' then STOP
      else NOT_INSTRUCTION)"

definition get_addressing_method_type :: "string \<Rightarrow> addressing_method" where
  "get_addressing_method_type word =
     (if cnth word 0 = NUL then NOT_EXIST
      else if is_number word then IMMEDIATE
      else if is_register word then REGISTER
      else DIRECT)"

definition get_number_of_register :: "string \<Rightarrow> int" where
  "get_number_of_register register_name = int (of_char (cnth register_name 2)) - 48"

subsection \<open>Base-64 output\<close>

text \<open>
  \<^verbatim>\<open>pow_math\<close> is binary exponentiation of \<^verbatim>\<open>BASE_POW\<close> = 2. The loop runs on a
  non-negative exponent, which the test before it guarantees.
\<close>

function pow_math_loop :: "nat \<Rightarrow> int \<Rightarrow> int \<Rightarrow> int" where
  "pow_math_loop exp base result =
     (if exp \<noteq> 0
      then pow_math_loop (drop_bit 1 exp) (base * base)
             (if exp AND 1 \<noteq> 0 then result * base else result)
      else result)"
  by pat_completeness auto
termination
  by (relation "measure (\<lambda>(exp, base, result). exp)") (auto simp: drop_bit_eq_div)

definition pow_math :: "int \<Rightarrow> int" where
  "pow_math exp = (if exp < 0 then - 1 else pow_math_loop (nat exp) 2 1)"

definition get_specific_bits :: "32 word \<Rightarrow> int \<Rightarrow> int \<Rightarrow> 32 word" where
  "get_specific_bits word start end =
     (let length = end - start + 1;
          mask = (word_of_int (pow_math length - 1) :: 32 word);
          mask = push_bit (nat start) mask;
          result = word AND mask
      in drop_bit (nat start) result)"

definition base64_table :: "char list" where
  "base64_table =
     ''ABCDEFGH'' @ ''IJKLMNOP'' @ ''QRSTUVWX'' @ ''YZabcdef'' @
     ''ghijklmn'' @ ''opqrstuv'' @ ''wxyz0123'' @ ''456789+/''"

definition convert_binary_to_64base :: "32 word \<Rightarrow> string" where
  "convert_binary_to_64base word =
     [base64_table ! unat (get_specific_bits word 6 11),
      base64_table ! unat (get_specific_bits word 0 5),
      NEWLINE]"

text \<open>
  The reading of a base-64 character that the specification describes: its position in
  the alphabet \<open>A-Z a-z 0-9 + /\<close>, character 0 being \<open>A\<close>.
\<close>

fun index_of :: "'a \<Rightarrow> 'a list \<Rightarrow> nat option" where
  "index_of x [] = None"
| "index_of x (y # ys) = (if x = y then Some 0 else map_option Suc (index_of x ys))"

definition spec_base64_alphabet :: string where
  "spec_base64_alphabet = ''ABCDEFGHIJKLMNOPQRSTUVWXYZabcdefghijklmnopqrstuvwxyz0123456789+/''"

definition spec_base64_value :: "char \<Rightarrow> nat option" where
  "spec_base64_value c = index_of c spec_base64_alphabet"

section \<open>label\_list.c\<close>

datatype type_of_label = DATA | CODE | EXTERN | ENTRY

fun type_of_label_value :: "type_of_label \<Rightarrow> nat" where
  "type_of_label_value DATA = 0"
| "type_of_label_value CODE = 1"
| "type_of_label_value EXTERN = 2"
| "type_of_label_value ENTRY = 3"

text \<open>
  A node of the list. \<open>name_label\<close> is the array of \<open>MAX_NAME_LABEL_LENGTH\<close>
  characters: the name up to its terminator if the terminator lies inside the array, and
  otherwise 32 characters with no terminator among them. \<open>address_label\<close> is a C
  \<^verbatim>\<open>int\<close>: a word of 32 bits, read as a signed number, whose addition wraps around.
\<close>

record item_label =
  name_label :: string
  address_label :: "32 word"
  type :: type_of_label

text \<open>
  The C string that starts at \<open>name_label\<close>, which is what \<^verbatim>\<open>strcmp\<close> and
  \<^verbatim>\<open>strcat\<close> read. In the structure the array is followed at once by the four bytes of
  \<open>address_label\<close> and the four bytes of \<open>type\<close>, the least significant byte first
  (the layout of GCC and Clang on x86-64). When the array holds no terminator the string
  runs on through these bytes up to the first that is zero; the upper bytes of \<open>type\<close>
  are always zero, so it never reaches the pointer that follows.
\<close>

definition le_bytes :: "32 word \<Rightarrow> char list" where
  "le_bytes w = map (\<lambda>k. char_of (unat (drop_bit (8 * k) w))) [0, 1, 2, 3]"

definition name_of_label :: "item_label \<Rightarrow> string" where
  "name_of_label node =
     (if length (name_label node) < MAX_NAME_LABEL_LENGTH then name_label node
      else take MAX_NAME_LABEL_LENGTH (name_label node)
           @ takeWhile (\<lambda>c. c \<noteq> NUL)
               (le_bytes (address_label node)
                @ le_bytes (of_nat (type_of_label_value (type node)))))"

datatype error_code =
  NO_ERROR
  | LABEL_ALREADY_EXISTS
  | MACRO_ALREADY_EXISTS
  | COMMA_REQUIRED_BETWEEN_VALUES
  | DATA_NEED_NUM_VALUE
  | CANT_DEFINE_LABEL_BEFORE_ENTRY
  | CANT_DEFINE_LABEL_BEFORE_EXTERN
  | STRING_STRUCTURE_NOT_VALID
  | STRING_MUST_END_IN_QUOTES
  | STRING_DIRECTIVE_ACCEPTS_ONE_PARAMETER
  | TOO_MUCH_WORDS_FOR_INSTRUCTION
  | CANT_FIND_LABEL_TO_ENTRY
  | INVALID_LABEL_NAME
  | INSTRUCTION_NAME_NOT_EXIST
  | INSTRUCTION_SHOULD_RECEIVE_TWO_OPERANDS
  | COMMA_REQUIRED_BETWEEN_OPERANDS
  | INSTRUCTION_SHOULD_RECEIVE_ONE_OPERAND
  | INSTRUCTION_SHOULD_NOT_RECEIVE_OPERANDS
  | INVALID_ADDRESS_METHOD_FOR_INSTRUCTION
  | MUST_PROVIDE_LABELS_TO_EXTERN
  | MUST_PROVIDE_LABELS_TO_ENTRY
  | MUST_PROVIDE_VALUES_TO_DATA
  | INVALID_COMMA_POSITION
  | LABEL_NOT_FOUND
  | NESTED_MACRO_DEFINITION
  | MACRO_NAME_IS_INSTRUCTION_OR_DIRECTIVE

text \<open>
  \<^verbatim>\<open>create_node_label\<close> copies the name with \<^verbatim>\<open>strcpy\<close> and then stores the address
  and the kind. Of a name of 32 characters or more the array keeps the first 32; the rest
  of the copy falls on the fields behind the array, which the two stores overwrite. A
  name of 48 characters or more is copied past the end of the node; the model does not
  follow such a write.
\<close>

definition create_node_label :: "string \<Rightarrow> int \<Rightarrow> type_of_label \<Rightarrow> item_label" where
  "create_node_label name address t =
     \<lparr>name_label = take MAX_NAME_LABEL_LENGTH name,
      address_label = word_of_int address,
      type = t\<rparr>"

text \<open>
  The singly linked list of labels is the list of its nodes from the head on.
  \<^verbatim>\<open>add_to_list_label\<close> walks to the first node whose string equals the name or,
  failing that, to the last node, and links the new node there.
\<close>

fun add_to_list_label_walk :: "string \<Rightarrow> item_label \<Rightarrow> item_label list \<Rightarrow> item_label \<Rightarrow> error_code \<times> item_label list" where
  "add_to_list_label_walk name temp_node [] new_node =
     (if name_of_label temp_node = name then (LABEL_ALREADY_EXISTS, [temp_node])
      else (NO_ERROR, [temp_node, new_node]))"
| "add_to_list_label_walk name temp_node (next_node # rest) new_node =
     (if name_of_label temp_node \<noteq> name
      then (let (e, tail) = add_to_list_label_walk name next_node rest new_node
            in (e, temp_node # tail))
      else (LABEL_ALREADY_EXISTS, temp_node # next_node # rest))"

fun add_to_list_label :: "item_label list \<Rightarrow> string \<Rightarrow> int \<Rightarrow> type_of_label \<Rightarrow> error_code \<times> item_label list" where
  "add_to_list_label [] name address t = (NO_ERROR, [create_node_label name address t])"
| "add_to_list_label (head_node # rest) name address t =
     add_to_list_label_walk name head_node rest (create_node_label name address t)"

text \<open>\<^verbatim>\<open>address_label += ic\<close> on C integers: the addition of 32-bit words.\<close>

fun update_address_of_data :: "item_label list \<Rightarrow> int \<Rightarrow> item_label list" where
  "update_address_of_data [] ic = []"
| "update_address_of_data (temp_head # rest) ic =
     (if type temp_head = DATA
      then temp_head\<lparr>address_label := address_label temp_head + word_of_int ic\<rparr>
      else temp_head) # update_address_of_data rest ic"

fun search_in_list_label :: "item_label list \<Rightarrow> string \<Rightarrow> item_label option" where
  "search_in_list_label [] name = None"
| "search_in_list_label (temp_head # rest) name =
     (if name = name_of_label temp_head then Some temp_head
      else search_in_list_label rest name)"

fun mark_label_as_entry :: "item_label list \<Rightarrow> string \<Rightarrow> error_code \<times> item_label list" where
  "mark_label_as_entry [] name = (CANT_FIND_LABEL_TO_ENTRY, [])"
| "mark_label_as_entry (temp_head # rest) name =
     (if name = name_of_label temp_head then (NO_ERROR, temp_head\<lparr>type := ENTRY\<rparr> # rest)
      else (let (e, tail) = mark_label_as_entry rest name in (e, temp_head # tail)))"


section \<open>The tokenizer of text\_tool.c\<close>

record line_struct =
  word1 :: string
  word2 :: string
  word3 :: string
  word4 :: string
  word5 :: string
  source :: addressing_method
  destination :: addressing_method
  count :: int

text \<open>The enumeration \<^verbatim>\<open>count_word_in_line\<close>; the program decrements such values.\<close>

abbreviation ZERO :: int where "ZERO \<equiv> 0"
abbreviation ONE :: int where "ONE \<equiv> 1"
abbreviation TWO :: int where "TWO \<equiv> 2"
abbreviation TREE :: int where "TREE \<equiv> 3"
abbreviation FOUR :: int where "FOUR \<equiv> 4"
abbreviation FIVE :: int where "FIVE \<equiv> 5"
abbreviation TOO_MUCH :: int where "TOO_MUCH \<equiv> 6"

text \<open>
  \<^verbatim>\<open>initialize_variables\<close> clears the five words and the count. The two addressing
  methods are left as \<^verbatim>\<open>malloc\<close> returned them; every reader sets them first, and the
  model starts them at \<open>NOT_EXIST\<close>.
\<close>

definition initialize_variables :: line_struct where
  "initialize_variables =
     \<lparr>word1 = [], word2 = [], word3 = [], word4 = [], word5 = [],
      source = NOT_EXIST, destination = NOT_EXIST, count = 0\<rparr>"

function fix_comma_in_line_loop :: "string \<Rightarrow> nat \<Rightarrow> string" where
  "fix_comma_in_line_loop line i =
     (if cnth line i \<noteq> NEWLINE \<and> cnth line i \<noteq> NUL
      then (if cnth line i = CHR '','' then [SPACE, cnth line i, SPACE] else [cnth line i])
           @ fix_comma_in_line_loop line (i + 1)
      else [NEWLINE])"
  by pat_completeness auto
termination
  by (relation "measure (\<lambda>(line, i). length line - i)") (auto simp: cnth_def split: if_splits)

definition fix_comma_in_line :: "string \<Rightarrow> string" where
  "fix_comma_in_line line = fix_comma_in_line_loop line 0"

function skip_white_character :: "nat \<Rightarrow> string \<Rightarrow> nat" where
  "skip_white_character curr_position text =
     (if cnth text curr_position = SPACE \<or> cnth text curr_position = TAB
      then skip_white_character (curr_position + 1) text
      else curr_position)"
  by pat_completeness auto
termination
  by (relation "measure (\<lambda>(curr_position, text). length text - curr_position)")
     (auto simp: cnth_def NUL_def SPACE_def TAB_def split: if_splits)

function skip_one_word_in_line_loop :: "nat \<Rightarrow> string \<Rightarrow> nat" where
  "skip_one_word_in_line_loop curr_position line_text =
     (if cnth line_text curr_position \<noteq> SPACE \<and> cnth line_text curr_position \<noteq> TAB
         \<and> cnth line_text curr_position \<noteq> NUL
      then skip_one_word_in_line_loop (curr_position + 1) line_text
      else curr_position)"
  by pat_completeness auto
termination
  by (relation "measure (\<lambda>(curr_position, line_text). length line_text - curr_position)")
     (auto simp: cnth_def split: if_splits)

definition skip_one_word_in_line :: "nat \<Rightarrow> string \<Rightarrow> nat" where
  "skip_one_word_in_line curr_position line_text =
     skip_one_word_in_line_loop (skip_white_character curr_position line_text) line_text"

function is_end_line :: "nat \<Rightarrow> string \<Rightarrow> bool" where
  "is_end_line curr_position line_text =
     (if cnth line_text curr_position \<noteq> NUL \<and> cnth line_text curr_position \<noteq> NEWLINE
      then (if cnth line_text curr_position = TAB \<or> cnth line_text curr_position = SPACE
            then is_end_line (curr_position + 1) line_text
            else False)
      else True)"
  by pat_completeness auto
termination
  by (relation "measure (\<lambda>(curr_position, line_text). length line_text - curr_position)")
     (auto simp: cnth_def split: if_splits)

function is_line_empty_loop :: "string \<Rightarrow> nat \<Rightarrow> bool" where
  "is_line_empty_loop line_text i =
     (if cnth line_text i \<noteq> NUL \<and> cnth line_text i \<noteq> NEWLINE
      then (if cnth line_text i \<noteq> SPACE \<and> cnth line_text i \<noteq> TAB then False
            else is_line_empty_loop line_text (i + 1))
      else True)"
  by pat_completeness auto
termination
  by (relation "measure (\<lambda>(line_text, i). length line_text - i)")
     (auto simp: cnth_def split: if_splits)

definition is_line_empty :: "string \<Rightarrow> bool" where
  "is_line_empty line_text =
     (let i = skip_white_character 0 line_text
      in if cnth line_text i = CHR '';'' then True else is_line_empty_loop line_text i)"

text \<open>
  The macro \<^verbatim>\<open>GET_WORD\<close>: the characters of \<^verbatim>\<open>temp_line\<close> from \<open>i\<close> up to the next
  blank, tab, newline or terminator form the word; then blanks and tabs are skipped. The
  result is the word and the new value of \<open>i\<close>.
\<close>

function GET_WORD_copy :: "string \<Rightarrow> nat \<Rightarrow> string \<times> nat" where
  "GET_WORD_copy temp_line i =
     (if cnth temp_line i \<noteq> SPACE \<and> cnth temp_line i \<noteq> TAB
         \<and> cnth temp_line i \<noteq> NEWLINE \<and> cnth temp_line i \<noteq> NUL
      then (let (temp_word, i') = GET_WORD_copy temp_line (i + 1) in (cnth temp_line i # temp_word, i'))
      else ([], i))"
  by pat_completeness auto
termination
  by (relation "measure (\<lambda>(temp_line, i). length temp_line - i)")
     (auto simp: cnth_def split: if_splits)

definition GET_WORD :: "string \<Rightarrow> nat \<Rightarrow> string \<times> nat" where
  "GET_WORD temp_line i =
     (let (temp_word, i) = GET_WORD_copy temp_line i
      in (temp_word, skip_white_character i temp_line))"

definition at_end :: "string \<Rightarrow> nat \<Rightarrow> bool" where
  "at_end temp_line i = (cnth temp_line i = NEWLINE \<or> cnth temp_line i = NUL)"

text \<open>
  \<^verbatim>\<open>create_new_line_struct\<close> finds the first non-blank position in the line as it was
  read, and uses that index in the copy of the line in which every comma is surrounded by
  blanks.
\<close>

definition create_new_line_struct :: "string \<Rightarrow> line_struct" where
  "create_new_line_struct text_line =
     (let temp_line = fix_comma_in_line text_line;
          new_line = initialize_variables;
          i = skip_white_character 0 text_line
      in if cnth temp_line i = NEWLINE then new_line\<lparr>count := ZERO\<rparr>
         else
           let (w, i) = GET_WORD temp_line i; new_line = new_line\<lparr>word1 := w\<rparr>
           in if at_end temp_line i then new_line\<lparr>count := ONE\<rparr>
         else
           let (w, i) = GET_WORD temp_line i; new_line = new_line\<lparr>word2 := w\<rparr>
           in if at_end temp_line i then new_line\<lparr>count := TWO\<rparr>
         else
           let (w, i) = GET_WORD temp_line i; new_line = new_line\<lparr>word3 := w\<rparr>
           in if at_end temp_line i then new_line\<lparr>count := TREE\<rparr>
         else
           let (w, i) = GET_WORD temp_line i; new_line = new_line\<lparr>word4 := w\<rparr>
           in if at_end temp_line i then new_line\<lparr>count := FOUR\<rparr>
         else
           let (w, i) = GET_WORD temp_line i; new_line = new_line\<lparr>word5 := w\<rparr>
           in if at_end temp_line i then new_line\<lparr>count := FIVE\<rparr>
         else new_line\<lparr>source := NOT_EXIST, destination := NOT_EXIST, count := TOO_MUCH\<rparr>)"

definition delete_label_from_line_struct :: "line_struct \<Rightarrow> line_struct" where
  "delete_label_from_line_struct ls =
     (let ls = ls\<lparr>word1 := word2 ls\<rparr>;
          ls = ls\<lparr>word2 := word3 ls\<rparr>;
          ls = ls\<lparr>word3 := word4 ls\<rparr>;
          ls = ls\<lparr>word4 := word5 ls\<rparr>;
          ls = ls\<lparr>word5 := []\<rparr>
      in if count ls \<noteq> TOO_MUCH then ls\<lparr>count := count ls - 1\<rparr> else ls)"

text \<open>
  \<^verbatim>\<open>is_label\<close> looks for the last character of the first word. On an empty first word
  the C function reads one character past the copied terminator; the model reads the
  terminator there as well.
\<close>

function is_label_loop :: "string \<Rightarrow> nat \<Rightarrow> nat" where
  "is_label_loop temp_first_word i =
     (if cnth temp_first_word (i + 1) \<noteq> NUL then is_label_loop temp_first_word (i + 1) else i)"
  by pat_completeness auto
termination
  by (relation "measure (\<lambda>(temp_first_word, i). length temp_first_word - i)")
     (auto simp: cnth_def split: if_splits)

definition is_label :: "line_struct \<Rightarrow> bool \<times> line_struct" where
  "is_label ls =
     (let temp_first_word = word1 ls;
          i = is_label_loop temp_first_word 0
      in if cnth temp_first_word i = CHR '':'' then (True, ls\<lparr>word1 := take i (word1 ls)\<rparr>)
         else (False, ls))"

subsection \<open>Library functions\<close>

text \<open>\<^verbatim>\<open>atoi\<close> of the C library: blanks, an optional sign, then decimal digits.\<close>

definition isspace :: "char \<Rightarrow> bool" where
  "isspace c = ((of_char c :: nat) = 32 \<or> (9 \<le> (of_char c :: nat) \<and> (of_char c :: nat) \<le> 13))"

fun atoi_digits :: "string \<Rightarrow> int \<Rightarrow> int" where
  "atoi_digits [] acc = acc"
| "atoi_digits (c # cs) acc =
     (if isdigit c then atoi_digits cs (acc * 10 + (int (of_char c) - 48)) else acc)"

definition atoi :: "string \<Rightarrow> int" where
  "atoi nptr =
     (case dropWhile isspace nptr of
        [] \<Rightarrow> 0
      | c # cs \<Rightarrow> (if c = CHR ''-'' then - atoi_digits cs 0
                  else if c = CHR ''+'' then atoi_digits cs 0
                  else atoi_digits (c # cs) 0))"

text \<open>The conversion \<^verbatim>\<open>%d\<close> of \<^verbatim>\<open>printf\<close>.\<close>

function decimal_of_nat :: "nat \<Rightarrow> string" where
  "decimal_of_nat n =
     (if n < 10 then [char_of (48 + n)]
      else decimal_of_nat (n div 10) @ [char_of (48 + n mod 10)])"
  by pat_completeness auto
termination
  by (relation "measure id") auto

definition decimal_of_int :: "int \<Rightarrow> string" where
  "decimal_of_int i = (if i < 0 then CHR ''-'' # decimal_of_nat (nat (- i)) else decimal_of_nat (nat i))"

text \<open>
  \<^verbatim>\<open>fgets\<close> with a buffer of \<open>size\<close> characters reads at most \<open>size - 1\<close> characters
  and stops after a newline. The result is the characters read and the rest of the stream.
\<close>

fun fgets_chars :: "nat \<Rightarrow> string \<Rightarrow> string \<times> string" where
  "fgets_chars 0 stream = ([], stream)"
| "fgets_chars (Suc n) [] = ([], [])"
| "fgets_chars (Suc n) (c # stream) =
     (if c = NEWLINE then ([c], stream)
      else (let (line, rest) = fgets_chars n stream in (c # line, rest)))"

definition MAX_ASSEMBLY_LINE_LENGTH :: nat where
  "MAX_ASSEMBLY_LINE_LENGTH = 82"


lemma fgets_chars_rest_le: "length (snd (fgets_chars n stream)) \<le> length stream"
  by (induction n stream rule: fgets_chars.induct) (auto split: prod.splits)

lemma fgets_chars_shorter:
  "stream \<noteq> [] \<Longrightarrow> length (snd (fgets_chars (Suc n) stream)) < length stream"
  using fgets_chars_rest_le[of n "tl stream"]
  by (cases stream) (auto split: prod.splits)

text \<open>
  The lines that successive calls of \<^verbatim>\<open>fgets\<close> deliver until it returns NULL. Each is
  used as a C string, so it ends before the first NUL that the stream may contain.
\<close>

function file_lines :: "string \<Rightarrow> string list" where
  "file_lines stream =
     (if stream = [] then []
      else (let (line, rest) = fgets_chars (MAX_ASSEMBLY_LINE_LENGTH - 1) stream
            in takeWhile (\<lambda>c. c \<noteq> NUL) line # file_lines rest))"
  by pat_completeness auto
termination
proof (relation "measure length", goal_cases)
  case 1
  show ?case by simp
next
  case (2 stream x line rest)
  have "fgets_chars (Suc 80) stream = (line, rest)"
    using 2(2,3) by (simp add: MAX_ASSEMBLY_LINE_LENGTH_def)
  then have "length rest < length stream"
    using fgets_chars_shorter[of stream 80] 2(1) by simp
  then show ?case by simp
qed

section \<open>macro\_list.c\<close>

record item_macro =
  name_macro :: string
  text_macro :: string

definition create_node_macro :: "string \<Rightarrow> string \<Rightarrow> item_macro" where
  "create_node_macro name text = \<lparr>name_macro = name, text_macro = text\<rparr>"

fun add_to_list_macro_walk :: "item_macro \<Rightarrow> item_macro list \<Rightarrow> item_macro \<Rightarrow> error_code \<times> item_macro list" where
  "add_to_list_macro_walk temp_node [] new_node =
     (if name_macro temp_node = name_macro new_node then (MACRO_ALREADY_EXISTS, [temp_node])
      else (NO_ERROR, [temp_node, new_node]))"
| "add_to_list_macro_walk temp_node (next_node # rest) new_node =
     (if name_macro temp_node \<noteq> name_macro new_node
      then (let (e, tail) = add_to_list_macro_walk next_node rest new_node in (e, temp_node # tail))
      else (MACRO_ALREADY_EXISTS, temp_node # next_node # rest))"

fun add_to_list_macro :: "item_macro list \<Rightarrow> string \<Rightarrow> string \<Rightarrow> error_code \<times> item_macro list" where
  "add_to_list_macro [] name text = (NO_ERROR, [create_node_macro name text])"
| "add_to_list_macro (head_node # rest) name text =
     add_to_list_macro_walk head_node rest (create_node_macro name text)"

fun search_in_list_macro :: "item_macro list \<Rightarrow> string \<Rightarrow> item_macro option" where
  "search_in_list_macro [] name = None"
| "search_in_list_macro (temp_head # rest) name =
     (if name = name_macro temp_head then Some temp_head else search_in_list_macro rest name)"

section \<open>file\_tool.c: the state of one translation\<close>

text \<open>
  \<^verbatim>\<open>file_struct\<close>, together with the static variables of pre\_assembly.c
  (\<open>curr_macro_text\<close>, \<open>curr_macro_name\<close>, \<open>macro_flag\<close>, \<open>temp_head_macro_list\<close>) and
  of second\_pass.c (\<open>extern_list\<close>). A stream is the text of a file; an output file that
  was never opened is \<open>None\<close>. \<open>diagnostics\<close> records the calls of \<^verbatim>\<open>print_error\<close>:
  the error code and the line number printed. The two arrays are functions from the index.
\<close>

record file_struct =
  line_text :: string
  pos_in_line :: nat
  count_macro :: int
  count_error :: int
  count_line :: int
  IC :: int
  DC :: int
  error_flag :: bool
  extern_flag :: bool
  entry_flag :: bool
  data_array :: "int \<Rightarrow> 32 word"
  instruction_array :: "int \<Rightarrow> 32 word"
  line_struct :: line_struct
  head_macro_list :: "item_macro list"
  head_label_list :: "item_label list"
  file_as :: string
  file_am :: string
  file_ob :: "string option"
  file_ent :: "string option"
  file_ext :: "string option"
  curr_macro_text :: string
  curr_macro_name :: string
  macro_flag :: bool
  temp_head_macro_list :: "item_macro option"
  extern_list :: string
  diagnostics :: "(error_code \<times> int) list"

definition FIRST_CELL_IN_MEMORY :: int where
  "FIRST_CELL_IN_MEMORY = 100"

definition create_new_file_struct :: "string \<Rightarrow> file_struct" where
  "create_new_file_struct source_text =
     \<lparr>line_text = [], pos_in_line = 0, count_macro = 0, count_error = 0, count_line = 0,
      IC = FIRST_CELL_IN_MEMORY, DC = 0,
      error_flag = False, extern_flag = False, entry_flag = False,
      data_array = (\<lambda>i. 0), instruction_array = (\<lambda>i. 0),
      line_struct = initialize_variables, head_macro_list = [], head_label_list = [],
      file_as = source_text, file_am = [], file_ob = None, file_ent = None, file_ext = None,
      curr_macro_text = [], curr_macro_name = [], macro_flag = False,
      temp_head_macro_list = None, extern_list = [], diagnostics = []\<rparr>"

text \<open>\<^verbatim>\<open>add_error\<close> and \<^verbatim>\<open>update_error_status\<close>, the same in all three stages.\<close>

definition add_error :: "error_code \<Rightarrow> file_struct \<Rightarrow> file_struct" where
  "add_error code sfile =
     sfile\<lparr>diagnostics := diagnostics sfile @ [(code, count_line sfile)],
           error_flag := True,
           count_error := count_error sfile + 1\<rparr>"

definition update_error_status :: "error_code \<Rightarrow> file_struct \<Rightarrow> file_struct" where
  "update_error_status code sfile = (if code \<noteq> NO_ERROR then add_error code sfile else sfile)"

section \<open>pre\_assembly.c\<close>

datatype first_word_status =
  STATUS_MACRO_NAME | STATUS_MCRO | STATUS_ENDMCRO | STATUS_TEXT_OF_MACRO | STATUS_TEXT_OF_CODE

definition get_first_word_status :: "file_struct \<Rightarrow> first_word_status \<times> file_struct" where
  "get_first_word_status sfile =
     (let sfile = sfile\<lparr>temp_head_macro_list :=
                    search_in_list_macro (head_macro_list sfile) (word1 (line_struct sfile))\<rparr>
      in if temp_head_macro_list sfile \<noteq> None then (STATUS_MACRO_NAME, sfile)
         else if word1 (line_struct sfile) = ''mcro''
         then (STATUS_MCRO,
               if macro_flag sfile then add_error NESTED_MACRO_DEFINITION sfile else sfile)
         else if word1 (line_struct sfile) = ''endmcro'' then (STATUS_ENDMCRO, sfile)
         else if macro_flag sfile then (STATUS_TEXT_OF_MACRO, sfile)
         else (STATUS_TEXT_OF_CODE, sfile))"

definition paste_macro_text :: "file_struct \<Rightarrow> file_struct" where
  "paste_macro_text sfile =
     sfile\<lparr>file_am := file_am sfile @
              (case temp_head_macro_list sfile of None \<Rightarrow> [] | Some m \<Rightarrow> text_macro m)\<rparr>"

definition update_name_of_macro :: "file_struct \<Rightarrow> file_struct" where
  "update_name_of_macro sfile =
     sfile\<lparr>macro_flag := True, curr_macro_name := word2 (line_struct sfile)\<rparr>"

definition add_new_macro_to_list :: "file_struct \<Rightarrow> file_struct" where
  "add_new_macro_to_list sfile =
     (let sfile = sfile\<lparr>macro_flag := False, count_macro := count_macro sfile + 1\<rparr>;
          sfile =
            (if \<not> is_name_a_reserved_word (curr_macro_name sfile)
             then (let (e, l) = add_to_list_macro (head_macro_list sfile)
                                  (curr_macro_name sfile) (curr_macro_text sfile)
                   in update_error_status e (sfile\<lparr>head_macro_list := l\<rparr>))
             else add_error MACRO_NAME_IS_INSTRUCTION_OR_DIRECTIVE sfile)
      in sfile\<lparr>curr_macro_text := [], curr_macro_name := []\<rparr>)"

definition add_text_to_macro :: "file_struct \<Rightarrow> file_struct" where
  "add_text_to_macro sfile = sfile\<lparr>curr_macro_text := curr_macro_text sfile @ line_text sfile\<rparr>"

definition paste_code_text :: "file_struct \<Rightarrow> file_struct" where
  "paste_code_text sfile = sfile\<lparr>file_am := file_am sfile @ line_text sfile\<rparr>"

fun pre_assembly_action_by_status :: "first_word_status \<Rightarrow> file_struct \<Rightarrow> file_struct" where
  "pre_assembly_action_by_status STATUS_MACRO_NAME sfile = paste_macro_text sfile"
| "pre_assembly_action_by_status STATUS_MCRO sfile = update_name_of_macro sfile"
| "pre_assembly_action_by_status STATUS_ENDMCRO sfile = add_new_macro_to_list sfile"
| "pre_assembly_action_by_status STATUS_TEXT_OF_MACRO sfile = add_text_to_macro sfile"
| "pre_assembly_action_by_status STATUS_TEXT_OF_CODE sfile = paste_code_text sfile"

text \<open>One turn of the loop of \<^verbatim>\<open>pre_assembly_on_curr_file\<close>, on the line just read.\<close>

definition pre_assembly_line :: "file_struct \<Rightarrow> string \<Rightarrow> file_struct" where
  "pre_assembly_line sfile line =
     (let sfile = sfile\<lparr>line_text := line\<rparr>;
          sfile = sfile\<lparr>count_line := count_line sfile + 1\<rparr>;
          sfile = sfile\<lparr>line_struct := create_new_line_struct (line_text sfile)\<rparr>;
          (status, sfile) = get_first_word_status sfile
      in pre_assembly_action_by_status status sfile)"

definition pre_assembly_lines :: "file_struct \<Rightarrow> string list \<Rightarrow> file_struct" where
  "pre_assembly_lines sfile lines = foldl pre_assembly_line sfile lines"

definition pre_assembly_on_curr_file :: "file_struct \<Rightarrow> file_struct" where
  "pre_assembly_on_curr_file sfile =
     (let sfile = sfile\<lparr>macro_flag := False\<rparr>;
          sfile = sfile\<lparr>file_am := []\<rparr>;
          sfile = pre_assembly_lines sfile (file_lines (file_as sfile))
      in sfile\<lparr>head_macro_list := []\<rparr>)"

definition start_pre_assembly :: "file_struct \<Rightarrow> file_struct" where
  "start_pre_assembly file_struct = pre_assembly_on_curr_file file_struct"


section \<open>first\_pass.c\<close>

definition update_line_to_array :: "file_struct \<Rightarrow> file_struct" where
  "update_line_to_array sfile = sfile\<lparr>line_struct := create_new_line_struct (line_text sfile)\<rparr>"

definition get_word_status :: "string \<Rightarrow> line_status" where
  "get_word_status word_text =
     (if word_text = ''.data'' then STATUS_DATA
      else if word_text = ''.string'' then STATUS_STRING
      else if word_text = ''.extern'' then STATUS_EXTERN
      else if word_text = ''.entry'' then STATUS_ENTRY
      else STATUS_CODE)"

definition add_new_label_to_list :: "line_status \<Rightarrow> file_struct \<Rightarrow> file_struct" where
  "add_new_label_to_list temp_status sfile =
     (if is_label_name_valid (word1 (line_struct sfile))
      then
        (let sfile =
               (if temp_status = STATUS_DATA \<or> temp_status = STATUS_STRING
                then (let (e, l) = add_to_list_label (head_label_list sfile)
                                     (word1 (line_struct sfile)) (DC sfile) DATA
                      in update_error_status e (sfile\<lparr>head_label_list := l\<rparr>))
                else sfile)
         in if temp_status = STATUS_CODE
            then (let (e, l) = add_to_list_label (head_label_list sfile)
                                 (word1 (line_struct sfile)) (IC sfile) CODE
                  in update_error_status e (sfile\<lparr>head_label_list := l\<rparr>))
            else sfile)
      else add_error INVALID_LABEL_NAME sfile)"

definition actions_on_label :: "file_struct \<Rightarrow> file_struct" where
  "actions_on_label sfile =
     (let (found, ls) = is_label (line_struct sfile);
          sfile = sfile\<lparr>line_struct := ls\<rparr>
      in if found
         then (let temp_status = get_word_status (word2 (line_struct sfile))
               in if temp_status = STATUS_ENTRY
                  then (let sfile = add_error CANT_DEFINE_LABEL_BEFORE_ENTRY sfile
                        in sfile\<lparr>line_struct := (line_struct sfile)\<lparr>count := 0\<rparr>\<rparr>)
                  else if temp_status = STATUS_EXTERN
                  then (let sfile = add_error CANT_DEFINE_LABEL_BEFORE_EXTERN sfile
                        in sfile\<lparr>line_struct := (line_struct sfile)\<lparr>count := 0\<rparr>\<rparr>)
                  else (let sfile = sfile\<lparr>pos_in_line :=
                                       skip_one_word_in_line (pos_in_line sfile) (line_text sfile)\<rparr>;
                            sfile = add_new_label_to_list temp_status sfile
                        in sfile\<lparr>line_struct := delete_label_from_line_struct (line_struct sfile)\<rparr>))
         else sfile)"

function get_next_word_copy :: "string \<Rightarrow> nat \<Rightarrow> string \<times> nat" where
  "get_next_word_copy text pos =
     (if cnth text pos \<noteq> SPACE \<and> cnth text pos \<noteq> TAB \<and> cnth text pos \<noteq> NEWLINE
         \<and> cnth text pos \<noteq> CHR '','' \<and> cnth text pos \<noteq> NUL
      then (let (temp_word, pos') = get_next_word_copy text (pos + 1) in (cnth text pos # temp_word, pos'))
      else ([], pos))"
  by pat_completeness auto
termination
  by (relation "measure (\<lambda>(text, pos). length text - pos)") (auto simp: cnth_def split: if_splits)

definition get_next_word_without_comma :: "file_struct \<Rightarrow> string \<times> file_struct" where
  "get_next_word_without_comma sfile =
     (let (temp_word, pos) = get_next_word_copy (line_text sfile) (pos_in_line sfile);
          sfile = sfile\<lparr>pos_in_line := pos\<rparr>
      in (temp_word,
          sfile\<lparr>pos_in_line := skip_white_character (pos_in_line sfile) (line_text sfile)\<rparr>))"

definition check_for_comma :: "file_struct \<Rightarrow> bool \<times> file_struct" where
  "check_for_comma sfile =
     (if cnth (line_text sfile) (pos_in_line sfile) = CHR '',''
      then (True, sfile\<lparr>pos_in_line := pos_in_line sfile + 1\<rparr>)
      else (False,
            if cnth (line_text sfile) (pos_in_line sfile) \<noteq> NEWLINE
               \<and> cnth (line_text sfile) (pos_in_line sfile) \<noteq> NUL
            then add_error COMMA_REQUIRED_BETWEEN_VALUES sfile
            else sfile))"

text \<open>
  The body of the do-while loop of \<^verbatim>\<open>save_data\<close>. The truth value says whether the
  loop goes round again: it does not after the \<^verbatim>\<open>return\<close> on a misplaced comma, and
  otherwise it is the result of \<^verbatim>\<open>check_for_comma\<close>.
\<close>

definition save_data_body :: "file_struct \<Rightarrow> bool \<times> file_struct" where
  "save_data_body sfile =
     (let sfile = sfile\<lparr>pos_in_line := skip_white_character (pos_in_line sfile) (line_text sfile)\<rparr>
      in if cnth (line_text sfile) (pos_in_line sfile) = CHR '',''
         then (False, add_error INVALID_COMMA_POSITION sfile)
         else
           (let (temp_word, sfile) = get_next_word_without_comma sfile;
                sfile =
                  (if is_number temp_word
                   then (let temp_number = atoi temp_word;
                             sfile = sfile\<lparr>data_array :=
                                       (data_array sfile)(DC sfile := word_of_int temp_number)\<rparr>
                         in sfile\<lparr>DC := DC sfile + 1\<rparr>)
                   else add_error DATA_NEED_NUM_VALUE sfile)
            in check_for_comma sfile))"


text \<open>The scanning loops move forward only; the do-while loops below end for that reason.\<close>

declare skip_white_character.simps [simp del]
declare get_next_word_copy.simps [simp del]
declare is_end_line.simps [simp del]

lemma skip_white_character_ge: "curr_position \<le> skip_white_character curr_position t"
proof (induction curr_position t rule: skip_white_character.induct)
  case (1 curr_position t)
  then show ?case
    by (subst skip_white_character.simps) (auto simp: Suc_leD)
qed

lemma get_next_word_copy_ge: "pos \<le> snd (get_next_word_copy t pos)"
proof (induction t pos rule: get_next_word_copy.induct)
  case (1 t pos)
  then show ?case
    by (subst get_next_word_copy.simps) (auto split: prod.splits simp: Suc_leD)
qed

lemma next_word_position_ge:
  "pos \<le> skip_white_character (snd (get_next_word_copy t (skip_white_character pos t))) t"
  using skip_white_character_ge[of pos t]
    get_next_word_copy_ge[of "skip_white_character pos t" t]
    skip_white_character_ge[of "snd (get_next_word_copy t (skip_white_character pos t))" t]
  by linarith

lemma save_data_body_again:
  assumes "save_data_body sfile = (True, sfile')"
  shows "line_text sfile' = line_text sfile \<and> pos_in_line sfile < pos_in_line sfile'
         \<and> pos_in_line sfile' \<le> length (line_text sfile)"
  using assms next_word_position_ge[of "pos_in_line sfile" "line_text sfile"]
  by (auto simp: save_data_body_def Let_def get_next_word_without_comma_def check_for_comma_def
      add_error_def cnth_def NUL_def split: prod.splits if_splits)

function save_data_loop :: "file_struct \<Rightarrow> file_struct" where
  "save_data_loop sfile =
     (let (again, sfile') = save_data_body sfile
      in if again then save_data_loop sfile' else sfile')"
  by pat_completeness auto
termination
proof (relation "measure (\<lambda>sfile. length (line_text sfile) - pos_in_line sfile)", goal_cases)
  case 1
  show ?case by simp
next
  case (2 sfile x again sfile')
  then have "save_data_body sfile = (True, sfile')" by simp
  from save_data_body_again[OF this] show ?case by auto
qed

definition save_data :: "file_struct \<Rightarrow> file_struct" where
  "save_data sfile =
     (let sfile = sfile\<lparr>pos_in_line := skip_one_word_in_line (pos_in_line sfile) (line_text sfile)\<rparr>
      in if is_end_line (pos_in_line sfile) (line_text sfile)
         then add_error MUST_PROVIDE_VALUES_TO_DATA sfile
         else save_data_loop sfile)"

text \<open>
  \<^verbatim>\<open>char\<close> is signed, as on x86: the conversion of a character to \<^verbatim>\<open>unsigned int\<close>
  extends its sign.
\<close>

definition char_to_unsigned_int :: "char \<Rightarrow> 32 word" where
  "char_to_unsigned_int c =
     word_of_int (if (of_char c :: nat) < 128 then int (of_char c) else int (of_char c) - 256)"

lemma is_end_line_past: "length t \<le> curr_position \<Longrightarrow> is_end_line curr_position t"
  by (subst is_end_line.simps) (simp add: cnth_def)

function save_string_loop :: "file_struct \<Rightarrow> file_struct" where
  "save_string_loop sfile =
     (if \<not> is_end_line (pos_in_line sfile) (line_text sfile)
         \<and> cnth (line_text sfile) (pos_in_line sfile) \<noteq> CHR 0x22
      then save_string_loop
             (sfile\<lparr>data_array := (data_array sfile)
                       (DC sfile := char_to_unsigned_int (cnth (line_text sfile) (pos_in_line sfile))),
                    DC := DC sfile + 1,
                    pos_in_line := pos_in_line sfile + 1\<rparr>)
      else sfile)"
  by pat_completeness auto
termination
proof (relation "measure (\<lambda>sfile. length (line_text sfile) - pos_in_line sfile)", goal_cases)
  case 1
  show ?case by simp
next
  case (2 sfile)
  then have "pos_in_line sfile < length (line_text sfile)"
    using is_end_line_past[of "line_text sfile" "pos_in_line sfile"] by force
  then show ?case by simp
qed

definition save_string :: "file_struct \<Rightarrow> file_struct" where
  "save_string sfile =
     (let sfile = sfile\<lparr>pos_in_line := skip_one_word_in_line (pos_in_line sfile) (line_text sfile)\<rparr>;
          sfile = sfile\<lparr>pos_in_line := skip_white_character (pos_in_line sfile) (line_text sfile)\<rparr>
      in if cnth (line_text sfile) (pos_in_line sfile) = CHR 0x22
         then
           (let sfile = sfile\<lparr>pos_in_line := pos_in_line sfile + 1\<rparr>;
                sfile = save_string_loop sfile
            in if cnth (line_text sfile) (pos_in_line sfile) = CHR 0x22
               then
                 (let sfile = sfile\<lparr>pos_in_line := pos_in_line sfile + 1\<rparr>;
                      sfile = sfile\<lparr>data_array := (data_array sfile)(DC sfile := 0)\<rparr>;
                      sfile = sfile\<lparr>DC := DC sfile + 1\<rparr>
                  in if \<not> is_end_line (pos_in_line sfile) (line_text sfile)
                     then add_error STRING_DIRECTIVE_ACCEPTS_ONE_PARAMETER sfile
                     else sfile)
               else add_error STRING_MUST_END_IN_QUOTES sfile)
         else add_error STRING_STRUCTURE_NOT_VALID sfile)"

definition add_extern_labels_body :: "file_struct \<Rightarrow> bool \<times> file_struct" where
  "add_extern_labels_body sfile =
     (let sfile = sfile\<lparr>pos_in_line := skip_white_character (pos_in_line sfile) (line_text sfile)\<rparr>
      in if cnth (line_text sfile) (pos_in_line sfile) = CHR '',''
         then (False, add_error INVALID_COMMA_POSITION sfile)
         else
           (let (temp_word, sfile) = get_next_word_without_comma sfile;
                sfile =
                  (if is_label_name_valid temp_word
                   then (let (e, l) = add_to_list_label (head_label_list sfile) temp_word 0 EXTERN
                         in update_error_status e (sfile\<lparr>head_label_list := l\<rparr>))
                   else add_error INVALID_LABEL_NAME sfile)
            in check_for_comma sfile))"

lemma add_extern_labels_body_again:
  assumes "add_extern_labels_body sfile = (True, sfile')"
  shows "line_text sfile' = line_text sfile \<and> pos_in_line sfile < pos_in_line sfile'
         \<and> pos_in_line sfile' \<le> length (line_text sfile)"
  using assms next_word_position_ge[of "pos_in_line sfile" "line_text sfile"]
  by (auto simp: add_extern_labels_body_def Let_def get_next_word_without_comma_def
      check_for_comma_def add_error_def update_error_status_def cnth_def NUL_def
      split: prod.splits if_splits)

function add_extern_labels_loop :: "file_struct \<Rightarrow> file_struct" where
  "add_extern_labels_loop sfile =
     (let (again, sfile') = add_extern_labels_body sfile
      in if again then add_extern_labels_loop sfile' else sfile')"
  by pat_completeness auto
termination
proof (relation "measure (\<lambda>sfile. length (line_text sfile) - pos_in_line sfile)", goal_cases)
  case 1
  show ?case by simp
next
  case (2 sfile x again sfile')
  then have "add_extern_labels_body sfile = (True, sfile')" by simp
  from add_extern_labels_body_again[OF this] show ?case by auto
qed

definition add_extern_labels :: "file_struct \<Rightarrow> file_struct" where
  "add_extern_labels sfile =
     (let sfile = sfile\<lparr>extern_flag := True\<rparr>;
          sfile = sfile\<lparr>pos_in_line := skip_one_word_in_line (pos_in_line sfile) (line_text sfile)\<rparr>
      in if is_end_line (pos_in_line sfile) (line_text sfile)
         then add_error MUST_PROVIDE_LABELS_TO_EXTERN sfile
         else add_extern_labels_loop sfile)"


subsection \<open>Instructions\<close>

text \<open>
  The words of an instruction are built in structures of bit-fields and copied into the
  array. Bit-fields are laid out from the least significant bit on, in the order of their
  declaration, as GCC and Clang do on little-endian machines. A value stored in a field of
  \<open>width\<close> bits is reduced modulo \<open>2 ^ width\<close>. The bits of the storage unit above the
  declared fields are indeterminate in C; the model has them zero.
\<close>

definition bit_field :: "nat \<Rightarrow> nat \<Rightarrow> int \<Rightarrow> 32 word" where
  "bit_field offset width v = push_bit offset (take_bit width (word_of_int v))"

definition first_word_of_instruction :: "int \<Rightarrow> int \<Rightarrow> int \<Rightarrow> int \<Rightarrow> 32 word" where
  "first_word_of_instruction encoding destination_address opcode source_address =
     bit_field 0 2 encoding OR bit_field 2 3 destination_address
     OR bit_field 5 4 opcode OR bit_field 9 3 source_address"

definition register_word_of_instruction :: "int \<Rightarrow> int \<Rightarrow> int \<Rightarrow> 32 word" where
  "register_word_of_instruction encoding register_number_destination register_number_source =
     bit_field 0 2 encoding OR bit_field 2 5 register_number_destination
     OR bit_field 7 5 register_number_source"

definition value_word_of_instruction :: "int \<Rightarrow> int \<Rightarrow> 32 word" where
  "value_word_of_instruction encoding v = bit_field 0 2 encoding OR bit_field 2 10 v"

definition update_addressing_method_type :: "instruction_type \<Rightarrow> file_struct \<Rightarrow> file_struct" where
  "update_addressing_method_type t sfile =
     (let ls = line_struct sfile
      in if t = MOV \<or> t = CMP \<or> t = ADD \<or> t = SUB \<or> t = LEA
         then sfile\<lparr>line_struct := ls\<lparr>source := get_addressing_method_type (word2 ls),
                                         destination := get_addressing_method_type (word4 ls)\<rparr>\<rparr>
         else if t = NOT_OP \<or> t = CLR \<or> t = INC \<or> t = DEC \<or> t = JMP \<or> t = BNE
                 \<or> t = RED \<or> t = PRN \<or> t = JSR
         then sfile\<lparr>line_struct := ls\<lparr>source := NOT_EXIST,
                                         destination := get_addressing_method_type (word2 ls),
                                         word4 := word2 ls\<rparr>\<rparr>
         else sfile\<lparr>line_struct := ls\<lparr>source := NOT_EXIST, destination := NOT_EXIST\<rparr>\<rparr>)"

definition check_errors_for_instructions :: "instruction_type \<Rightarrow> file_struct \<Rightarrow> file_struct" where
  "check_errors_for_instructions t sfile =
     (let sfile =
            (if count (line_struct sfile) = TOO_MUCH \<or> count (line_struct sfile) = FIVE
             then add_error TOO_MUCH_WORDS_FOR_INSTRUCTION sfile else sfile);
          sfile =
            (if t = MOV \<or> t = CMP \<or> t = ADD \<or> t = SUB \<or> t = LEA
             then
               (let sfile = (if count (line_struct sfile) \<noteq> FOUR
                             then add_error INSTRUCTION_SHOULD_RECEIVE_TWO_OPERANDS sfile
                             else sfile)
                in if word3 (line_struct sfile) \<noteq> '',''
                   then add_error COMMA_REQUIRED_BETWEEN_OPERANDS sfile else sfile)
             else if t = NOT_OP \<or> t = CLR \<or> t = INC \<or> t = DEC \<or> t = JMP \<or> t = BNE
                     \<or> t = RED \<or> t = PRN \<or> t = JSR
             then (if count (line_struct sfile) \<noteq> TWO
                   then add_error INSTRUCTION_SHOULD_RECEIVE_ONE_OPERAND sfile else sfile)
             else if t = RTS \<or> t = STOP
             then (if count (line_struct sfile) \<noteq> ONE
                   then add_error INSTRUCTION_SHOULD_NOT_RECEIVE_OPERANDS sfile else sfile)
             else add_error INSTRUCTION_NAME_NOT_EXIST sfile)
      in if (t = MOV \<or> t = ADD \<or> t = SUB) \<and> destination (line_struct sfile) = IMMEDIATE
         then add_error INVALID_ADDRESS_METHOD_FOR_INSTRUCTION sfile
         else if t = LEA \<and> (destination (line_struct sfile) = IMMEDIATE
                             \<or> source (line_struct sfile) \<noteq> DIRECT)
         then add_error INVALID_ADDRESS_METHOD_FOR_INSTRUCTION sfile
         else if (t = NOT_OP \<or> t = CLR \<or> t = INC \<or> t = DEC \<or> t = JMP \<or> t = BNE
                  \<or> t = RED \<or> t = JSR) \<and> destination (line_struct sfile) = IMMEDIATE
         then add_error INVALID_ADDRESS_METHOD_FOR_INSTRUCTION sfile
         else sfile)"

definition add_first_word_of_instruction_to_array :: "instruction_type \<Rightarrow> file_struct \<Rightarrow> file_struct" where
  "add_first_word_of_instruction_to_array t sfile =
     (let w = first_word_of_instruction
                (int (encoding_type_value ABSOLUTE))
                (int (addressing_method_value (destination (line_struct sfile))))
                (int (instruction_type_value t))
                (int (addressing_method_value (source (line_struct sfile))));
          sfile = sfile\<lparr>instruction_array := (instruction_array sfile)(IC sfile := w)\<rparr>
      in sfile\<lparr>IC := IC sfile + 1\<rparr>)"

text \<open>
  The copy of a finished word to \<^verbatim>\<open>instruction_array[IC]\<close> followed by the increment
  of \<open>IC\<close>, which the program repeats for every operand word.
\<close>

definition store_instruction_word :: "32 word \<Rightarrow> file_struct \<Rightarrow> file_struct" where
  "store_instruction_word w sfile =
     (let sfile = sfile\<lparr>instruction_array := (instruction_array sfile)(IC sfile := w)\<rparr>
      in sfile\<lparr>IC := IC sfile + 1\<rparr>)"

definition add_the_rest_of_the_instruction_to_array :: "file_struct \<Rightarrow> file_struct" where
  "add_the_rest_of_the_instruction_to_array sfile =
     (let ls = line_struct sfile;
          sfile =
            (case source ls of
               REGISTER \<Rightarrow>
                 store_instruction_word
                   (register_word_of_instruction (int (encoding_type_value ABSOLUTE))
                      (if destination ls = REGISTER then get_number_of_register (word4 ls)
                       else int (addressing_method_value NOT_EXIST))
                      (get_number_of_register (word2 ls))) sfile
             | IMMEDIATE \<Rightarrow>
                 store_instruction_word
                   (value_word_of_instruction (int (encoding_type_value ABSOLUTE))
                      (atoi (word2 ls))) sfile
             | DIRECT \<Rightarrow> store_instruction_word 0 sfile
             | NOT_EXIST \<Rightarrow> sfile)
      in case destination ls of
           REGISTER \<Rightarrow>
             (if source ls \<noteq> REGISTER
              then store_instruction_word
                     (register_word_of_instruction (int (encoding_type_value ABSOLUTE))
                        (get_number_of_register (word4 ls))
                        (int (addressing_method_value NOT_EXIST))) sfile
              else sfile)
         | IMMEDIATE \<Rightarrow>
             store_instruction_word
               (value_word_of_instruction (int (encoding_type_value ABSOLUTE))
                  (atoi (word4 ls))) sfile
         | DIRECT \<Rightarrow> store_instruction_word 0 sfile
         | NOT_EXIST \<Rightarrow> sfile)"

definition add_instructions :: "file_struct \<Rightarrow> file_struct" where
  "add_instructions sfile =
     (let t = get_instruction_type (word1 (line_struct sfile));
          sfile = update_addressing_method_type t sfile;
          sfile = check_errors_for_instructions t sfile
      in if \<not> error_flag sfile
         then add_the_rest_of_the_instruction_to_array
                (add_first_word_of_instruction_to_array t sfile)
         else sfile)"

fun first_pass_action_by_status :: "line_status \<Rightarrow> file_struct \<Rightarrow> file_struct" where
  "first_pass_action_by_status STATUS_DATA sfile = save_data sfile"
| "first_pass_action_by_status STATUS_STRING sfile = save_string sfile"
| "first_pass_action_by_status STATUS_EXTERN sfile = add_extern_labels sfile"
| "first_pass_action_by_status STATUS_ENTRY sfile = sfile"
| "first_pass_action_by_status STATUS_CODE sfile = add_instructions sfile"

definition update_address_label_of_data :: "file_struct \<Rightarrow> file_struct" where
  "update_address_label_of_data sfile =
     sfile\<lparr>head_label_list := update_address_of_data (head_label_list sfile) (IC sfile)\<rparr>"

text \<open>One turn of the loop of \<^verbatim>\<open>first_pass_on_curr_file\<close>, on the line just read.\<close>

definition first_pass_line :: "file_struct \<Rightarrow> string \<Rightarrow> file_struct" where
  "first_pass_line sfile line =
     (let sfile = sfile\<lparr>line_text := line\<rparr>;
          sfile = sfile\<lparr>count_line := count_line sfile + 1\<rparr>
      in if is_line_empty (line_text sfile) then sfile
         else
           (let sfile = sfile\<lparr>pos_in_line := 0\<rparr>;
                sfile = update_line_to_array sfile;
                sfile = actions_on_label sfile
            in if count (line_struct sfile) = 0 then sfile
               else first_pass_action_by_status
                      (get_word_status (word1 (line_struct sfile))) sfile))"

definition first_pass_lines :: "file_struct \<Rightarrow> string list \<Rightarrow> file_struct" where
  "first_pass_lines sfile lines = foldl first_pass_line sfile lines"

definition first_pass_on_curr_file :: "file_struct \<Rightarrow> file_struct" where
  "first_pass_on_curr_file sfile =
     (let sfile = sfile\<lparr>count_line := 0\<rparr>;
          sfile = first_pass_lines sfile (file_lines (file_am sfile))
      in if \<not> error_flag sfile then update_address_label_of_data sfile else sfile)"

definition start_first_pass :: "file_struct \<Rightarrow> file_struct" where
  "start_first_pass original_file_struct = first_pass_on_curr_file original_file_struct"


section \<open>label\_list.c: the entry listing\<close>

fun get_entry_list :: "item_label list \<Rightarrow> string" where
  "get_entry_list [] = []"
| "get_entry_list (temp_node # rest) =
     (if type temp_node = ENTRY
      then name_of_label temp_node @ [TAB] @ decimal_of_int (sint (address_label temp_node))
           @ [NEWLINE]
      else []) @ get_entry_list rest"

section \<open>second\_pass.c\<close>

definition skip_on_label :: "file_struct \<Rightarrow> file_struct" where
  "skip_on_label sfile =
     (let (found, ls) = is_label (line_struct sfile);
          sfile = sfile\<lparr>line_struct := ls\<rparr>
      in if found
         then (let sfile = sfile\<lparr>pos_in_line :=
                              skip_one_word_in_line (pos_in_line sfile) (line_text sfile)\<rparr>
               in sfile\<lparr>line_struct := delete_label_from_line_struct (line_struct sfile)\<rparr>)
         else sfile)"

definition mark_entry_labels_body :: "file_struct \<Rightarrow> bool \<times> file_struct" where
  "mark_entry_labels_body sfile =
     (let sfile = sfile\<lparr>pos_in_line := skip_white_character (pos_in_line sfile) (line_text sfile)\<rparr>
      in if cnth (line_text sfile) (pos_in_line sfile) = CHR '',''
         then (False, add_error INVALID_COMMA_POSITION sfile)
         else
           (let (temp_word, sfile) = get_next_word_without_comma sfile;
                sfile =
                  (if is_label_name_valid temp_word
                   then (let (e, l) = mark_label_as_entry (head_label_list sfile) temp_word
                         in update_error_status e (sfile\<lparr>head_label_list := l\<rparr>))
                   else add_error INVALID_LABEL_NAME sfile)
            in check_for_comma sfile))"

lemma mark_entry_labels_body_again:
  assumes "mark_entry_labels_body sfile = (True, sfile')"
  shows "line_text sfile' = line_text sfile \<and> pos_in_line sfile < pos_in_line sfile'
         \<and> pos_in_line sfile' \<le> length (line_text sfile)"
  using assms next_word_position_ge[of "pos_in_line sfile" "line_text sfile"]
  by (auto simp: mark_entry_labels_body_def Let_def get_next_word_without_comma_def
      check_for_comma_def add_error_def update_error_status_def cnth_def NUL_def
      split: prod.splits if_splits)

function mark_entry_labels_loop :: "file_struct \<Rightarrow> file_struct" where
  "mark_entry_labels_loop sfile =
     (let (again, sfile') = mark_entry_labels_body sfile
      in if again then mark_entry_labels_loop sfile' else sfile')"
  by pat_completeness auto
termination
proof (relation "measure (\<lambda>sfile. length (line_text sfile) - pos_in_line sfile)", goal_cases)
  case 1
  show ?case by simp
next
  case (2 sfile x again sfile')
  then have "mark_entry_labels_body sfile = (True, sfile')" by simp
  from mark_entry_labels_body_again[OF this] show ?case by auto
qed

definition mark_entry_labels :: "file_struct \<Rightarrow> file_struct" where
  "mark_entry_labels sfile =
     (let sfile = sfile\<lparr>entry_flag := True\<rparr>;
          sfile = sfile\<lparr>pos_in_line := skip_one_word_in_line (pos_in_line sfile) (line_text sfile)\<rparr>
      in if is_end_line (pos_in_line sfile) (line_text sfile)
         then add_error MUST_PROVIDE_LABELS_TO_ENTRY sfile
         else mark_entry_labels_loop sfile)"

definition add_extern_label_to_array :: "item_label \<Rightarrow> file_struct \<Rightarrow> file_struct" where
  "add_extern_label_to_array temp_node sfile =
     sfile\<lparr>extern_list := extern_list sfile @ name_of_label temp_node @ [TAB]
                             @ decimal_of_int (IC sfile) @ [NEWLINE]\<rparr>"

text \<open>The operand word of a direct operand: the look-up of the label and what follows it.\<close>

definition complete_direct_operand :: "string \<Rightarrow> file_struct \<Rightarrow> file_struct" where
  "complete_direct_operand operand sfile =
     (case search_in_list_label (head_label_list sfile) operand of
        Some label_node \<Rightarrow>
          (let sfile = (if type label_node = EXTERN
                        then add_extern_label_to_array label_node sfile else sfile);
               encoding = (if type label_node = EXTERN then EXTERNAL else RELOCATABLE)
           in store_instruction_word
                (value_word_of_instruction (int (encoding_type_value encoding))
                   (sint (address_label label_node))) sfile)
      | None \<Rightarrow> add_error LABEL_NOT_FOUND sfile)"

definition update_the_rest_of_the_instruction_to_array :: "file_struct \<Rightarrow> file_struct" where
  "update_the_rest_of_the_instruction_to_array sfile =
     (let ls = line_struct sfile;
          sfile =
            (case source ls of
               REGISTER \<Rightarrow> sfile\<lparr>IC := IC sfile + 1\<rparr>
             | IMMEDIATE \<Rightarrow> sfile\<lparr>IC := IC sfile + 1\<rparr>
             | DIRECT \<Rightarrow> complete_direct_operand (word2 ls) sfile
             | NOT_EXIST \<Rightarrow> sfile)
      in case destination ls of
           REGISTER \<Rightarrow> (if source ls \<noteq> REGISTER then sfile\<lparr>IC := IC sfile + 1\<rparr> else sfile)
         | IMMEDIATE \<Rightarrow> sfile\<lparr>IC := IC sfile + 1\<rparr>
         | DIRECT \<Rightarrow> complete_direct_operand (word4 ls) sfile
         | NOT_EXIST \<Rightarrow> sfile)"

definition complete_missing_instructions :: "file_struct \<Rightarrow> file_struct" where
  "complete_missing_instructions sfile =
     (let t = get_instruction_type (word1 (line_struct sfile));
          sfile = update_addressing_method_type t sfile;
          sfile = sfile\<lparr>IC := IC sfile + 1\<rparr>
      in update_the_rest_of_the_instruction_to_array sfile)"

fun second_pass_action_by_status :: "line_status \<Rightarrow> file_struct \<Rightarrow> file_struct" where
  "second_pass_action_by_status STATUS_DATA sfile = sfile"
| "second_pass_action_by_status STATUS_STRING sfile = sfile"
| "second_pass_action_by_status STATUS_EXTERN sfile = sfile"
| "second_pass_action_by_status STATUS_ENTRY sfile = mark_entry_labels sfile"
| "second_pass_action_by_status STATUS_CODE sfile = complete_missing_instructions sfile"

text \<open>
  The object file: the header line, then one line for each word of
  \<^verbatim>\<open>instruction_array\<close> from \<open>FIRST_CELL_IN_MEMORY\<close> up to \<open>IC\<close>, then one line for each
  word of \<^verbatim>\<open>data_array\<close> up to \<open>DC\<close>.
\<close>

definition object_file_header :: "file_struct \<Rightarrow> string" where
  "object_file_header sfile =
     decimal_of_int (IC sfile - FIRST_CELL_IN_MEMORY) @ [TAB] @ decimal_of_int (DC sfile) @ [NEWLINE]"

definition object_file_words :: "file_struct \<Rightarrow> string list" where
  "object_file_words sfile =
     map (\<lambda>i. convert_binary_to_64base (instruction_array sfile i))
       [FIRST_CELL_IN_MEMORY..IC sfile - 1]
     @ map (\<lambda>i. convert_binary_to_64base (data_array sfile i)) [0..DC sfile - 1]"

definition create_object_file :: "file_struct \<Rightarrow> file_struct" where
  "create_object_file sfile =
     sfile\<lparr>file_ob := Some (object_file_header sfile @ concat (object_file_words sfile))\<rparr>"

definition create_all_files :: "file_struct \<Rightarrow> file_struct" where
  "create_all_files sfile =
     (let sfile = (if entry_flag sfile
                   then sfile\<lparr>file_ent := Some (get_entry_list (head_label_list sfile))\<rparr>
                   else sfile);
          sfile = (if extern_flag sfile
                   then sfile\<lparr>file_ext := Some (extern_list sfile)\<rparr>
                   else sfile)
      in create_object_file sfile)"

text \<open>One turn of the loop of \<^verbatim>\<open>second_pass_on_curr_file\<close>, on the line just read.\<close>

definition second_pass_line :: "file_struct \<Rightarrow> string \<Rightarrow> file_struct" where
  "second_pass_line sfile line =
     (let sfile = sfile\<lparr>line_text := line\<rparr>;
          sfile = sfile\<lparr>count_line := count_line sfile + 1\<rparr>
      in if is_line_empty (line_text sfile) then sfile
         else
           (let sfile = sfile\<lparr>pos_in_line := 0\<rparr>;
                sfile = update_line_to_array sfile;
                sfile = skip_on_label sfile
            in if count (line_struct sfile) = 0 then sfile
               else second_pass_action_by_status
                      (get_word_status (word1 (line_struct sfile))) sfile))"

definition second_pass_lines :: "file_struct \<Rightarrow> string list \<Rightarrow> file_struct" where
  "second_pass_lines sfile lines = foldl second_pass_line sfile lines"

definition second_pass_on_curr_file :: "file_struct \<Rightarrow> file_struct" where
  "second_pass_on_curr_file sfile =
     (let sfile = sfile\<lparr>count_line := 0\<rparr>;
          sfile = sfile\<lparr>extern_list := []\<rparr>;
          sfile = sfile\<lparr>IC := FIRST_CELL_IN_MEMORY\<rparr>;
          sfile = second_pass_lines sfile (file_lines (file_am sfile));
          sfile = (if \<not> error_flag sfile then create_all_files sfile else sfile)
      in sfile\<lparr>head_label_list := []\<rparr>)"

definition start_second_pass :: "file_struct \<Rightarrow> file_struct" where
  "start_second_pass original_file_struct = second_pass_on_curr_file original_file_struct"

section \<open>main.c\<close>

text \<open>
  \<^verbatim>\<open>start_assembly_process_on_file\<close>, on the text of the source file. The result is the
  file structure as it is when the three stages have run.
\<close>

definition start_assembly_process_on_file :: "string \<Rightarrow> file_struct" where
  "start_assembly_process_on_file source_text =
     (let file_struct = create_new_file_struct source_text;
          file_struct = start_pre_assembly file_struct;
          file_struct = start_first_pass file_struct
      in start_second_pass file_struct)"


text \<open>
  The equations of the loops are unfolded by hand in the proofs below, one turn at a time.
\<close>

declare is_number_loop.simps [simp del]
declare is_label_name_valid_loop.simps [simp del]
declare fix_comma_in_line_loop.simps [simp del]
declare skip_one_word_in_line_loop.simps [simp del]
declare is_line_empty_loop.simps [simp del]
declare GET_WORD_copy.simps [simp del]
declare is_label_loop.simps [simp del]
declare decimal_of_nat.simps [simp del]
declare file_lines.simps [simp del]
declare save_data_loop.simps [simp del]
declare save_string_loop.simps [simp del]
declare add_extern_labels_loop.simps [simp del]
declare mark_entry_labels_loop.simps [simp del]

section \<open>The words of the specification\<close>

text \<open>
  The reserved lexemes as the specification lists them: the four directives, the two macro
  keywords, the eight registers and the sixteen opcodes, the last in the order that gives
  each its number.
\<close>

definition spec_directives :: "string list" where
  "spec_directives = [''.data'', ''.string'', ''.entry'', ''.extern'']"

definition spec_macro_keywords :: "string list" where
  "spec_macro_keywords = [''mcro'', ''endmcro'']"

definition spec_registers :: "string list" where
  "spec_registers = [''@r0'', ''@r1'', ''@r2'', ''@r3'', ''@r4'', ''@r5'', ''@r6'', ''@r7'']"

definition spec_opcodes :: "string list" where
  "spec_opcodes =
     [''mov'', ''cmp'', ''add'', ''sub'', ''not'', ''clr'', ''lea'', ''inc'',
      ''dec'', ''jmp'', ''bne'', ''red'', ''prn'', ''jsr'', ''rts'', ''stop'']"

definition spec_reserved_words :: "string list" where
  "spec_reserved_words = spec_directives @ spec_macro_keywords @ spec_registers @ spec_opcodes"

definition alphanumeric :: "char \<Rightarrow> bool" where
  "alphanumeric c = (isalpha c \<or> isdigit c)"

text \<open>
  The rule for label names in the words of the specification: the name starts with a
  letter, contains only letters and digits, is shorter than 32 characters and is not a
  reserved word.
\<close>

definition spec_label_name_valid :: "string \<Rightarrow> bool" where
  "spec_label_name_valid name =
     (name \<noteq> [] \<and> isalpha (hd name) \<and> list_all alphanumeric name \<and> length name < 32
      \<and> name \<notin> set spec_reserved_words)"

section \<open>Properties of the base-64 output\<close>

lemma pow_math_6: "pow_math 6 = 64"
  by (simp add: pow_math_def pow_math_loop.simps[of 6] pow_math_loop.simps[of 3]
      pow_math_loop.simps[of 1] pow_math_loop.simps[of 0] drop_bit_eq_div)

lemma masked_field:
  "n + k \<le> 32 \<Longrightarrow>
   drop_bit n ((w::32 word) AND push_bit n (mask k)) = take_bit k (drop_bit n w)"
  by (rule bit_eqI) (auto simp: bit_simps)

lemma get_specific_bits_6_11: "get_specific_bits w 6 11 = take_bit 6 (drop_bit 6 w)"
proof -
  have "get_specific_bits w 6 11 = drop_bit 6 (w AND push_bit 6 (mask 6))"
    by (simp add: get_specific_bits_def Let_def pow_math_6 mask_eq_exp_minus_1)
  then show ?thesis using masked_field[of 6 6 w] by simp
qed

lemma get_specific_bits_0_5: "get_specific_bits w 0 5 = take_bit 6 w"
proof -
  have "get_specific_bits w 0 5 = drop_bit 0 (w AND push_bit 0 (mask 6))"
    by (simp add: get_specific_bits_def Let_def pow_math_6 mask_eq_exp_minus_1)
  then show ?thesis using masked_field[of 0 6 w] by simp
qed

lemma index_of_nth: "distinct xs \<Longrightarrow> i < length xs \<Longrightarrow> index_of (xs ! i) xs = Some i"
proof (induction xs arbitrary: i)
  case Nil
  then show ?case by simp
next
  case (Cons x xs)
  then show ?case by (cases i) auto
qed

lemma base64_table_is_alphabet: "base64_table = spec_base64_alphabet"
  by (simp add: base64_table_def spec_base64_alphabet_def)

lemma base64_table_distinct: "distinct base64_table"
  by (simp add: base64_table_def)

lemma base64_table_length: "length base64_table = 64"
  by (simp add: base64_table_def)

lemma spec_base64_value_table:
  "i < 64 \<Longrightarrow> spec_base64_value (base64_table ! i) = Some i"
  unfolding spec_base64_value_def base64_table_is_alphabet[symmetric]
  by (rule index_of_nth[OF base64_table_distinct]) (simp add: base64_table_length)

lemma unat_get_specific_bits_6_11: "unat (get_specific_bits w 6 11) = unat w div 64 mod 64"
  by (simp add: get_specific_bits_6_11 take_bit_eq_mod drop_bit_eq_div unat_div unat_mod)

lemma unat_get_specific_bits_0_5: "unat (get_specific_bits w 0 5) = unat w mod 64"
  by (simp add: get_specific_bits_0_5 take_bit_eq_mod unat_mod)

text \<open>
  Claim C2. The base-64 text of a stored word \<open>w\<close> is two characters of the alphabet and a
  newline. The first character stands for bits 6 to 11 of \<open>w\<close>, the second for bits 0 to
  5, and the two values, the first as the high half, give back \<open>w\<close> modulo \<open>2 ^ 12\<close>.
\<close>

theorem base64_two_characters:
  "length (convert_binary_to_64base w) = 3
   \<and> convert_binary_to_64base w ! 2 = NEWLINE
   \<and> spec_base64_value (convert_binary_to_64base w ! 0) = Some (unat w div 64 mod 64)
   \<and> spec_base64_value (convert_binary_to_64base w ! 1) = Some (unat w mod 64)
   \<and> (unat w div 64 mod 64) * 64 + unat w mod 64 = unat w mod 2 ^ 12"
proof -
  have ar: "(unat w div 64 mod 64) * 64 + unat w mod 64 = unat w mod 2 ^ 12"
    using mod_mult2_eq[of "unat w" 64 64] by simp
  show ?thesis
    using ar
    by (simp add: convert_binary_to_64base_def unat_get_specific_bits_6_11
        unat_get_specific_bits_0_5 spec_base64_value_table)
qed

section \<open>Properties of the symbol table\<close>










text \<open>
  A name of 33 characters, which \<^verbatim>\<open>is_label_name_valid\<close> lets through, does not fit the
  array. Inserted at address 100, it is stored as its first 32 characters followed by the
  low byte of the address, the character \<open>d\<close>: the name itself is not present in the
  table afterwards. A second insertion of the same name finds no equal string, returns
  \<open>NO_ERROR\<close> and appends a second node.
\<close>

lemma label_of_33_characters_twice:
  "map name_of_label
     (snd (add_to_list_label [] ''a23456789012345678901234567890123'' 100 CODE))
     = [''a2345678901234567890123456789012d'']
   \<and> fst (add_to_list_label
            (snd (add_to_list_label [] ''a23456789012345678901234567890123'' 100 CODE))
            ''a23456789012345678901234567890123'' 101 CODE) = NO_ERROR
   \<and> length (snd (add_to_list_label
            (snd (add_to_list_label [] ''a23456789012345678901234567890123'' 100 CODE))
            ''a23456789012345678901234567890123'' 101 CODE)) = 2"
  by code_simp

lemma update_address_of_data_map:
  "update_address_of_data table ic =
     map (\<lambda>r. if type r = DATA then r\<lparr>address_label := address_label r + word_of_int ic\<rparr>
               else r) table"
  by (induction table) auto

lemma sint_add_in_range:
  fixes a :: "32 word"
  assumes "- (2 ^ 31) \<le> sint a + ic" and "sint a + ic < 2 ^ 31"
  shows "sint (a + word_of_int ic) = sint a + ic"
proof -
  have "a + word_of_int ic = word_of_int (sint a + ic)"
    by simp
  then have "sint (a + word_of_int ic) = signed_take_bit 31 (sint a + ic)"
    by (simp only: sint_sbintrunc') simp
  then show ?thesis
    using assms by (simp add: signed_take_bit_int_eq_self)
qed

text \<open>
  Claim C5. \<^verbatim>\<open>update_address_of_data\<close> keeps the number and order of the records, the
  name array and the kind of every record, and the address of every record that is not of
  kind \<open>DATA\<close>. To the address of every record of kind \<open>DATA\<close> it adds the offset, in the
  arithmetic of C integers: the sum of the address and the offset when that sum is a
  32-bit signed number, and that sum modulo \<open>2 ^ 32\<close> in general. The string of a record
  whose name fits the array is unchanged.
\<close>

theorem update_address_of_data_frame:
  "length (update_address_of_data table ic) = length table
   \<and> (\<forall>i < length table.
         name_label (update_address_of_data table ic ! i) = name_label (table ! i)
         \<and> type (update_address_of_data table ic ! i) = type (table ! i)
         \<and> address_label (update_address_of_data table ic ! i) =
             (if type (table ! i) = DATA then address_label (table ! i) + word_of_int ic
              else address_label (table ! i))
         \<and> (type (table ! i) = DATA
              \<and> - (2 ^ 31) \<le> sint (address_label (table ! i)) + ic
              \<and> sint (address_label (table ! i)) + ic < 2 ^ 31
             \<longrightarrow> sint (address_label (update_address_of_data table ic ! i))
                  = sint (address_label (table ! i)) + ic)
         \<and> (length (name_label (table ! i)) < MAX_NAME_LABEL_LENGTH
             \<longrightarrow> name_of_label (update_address_of_data table ic ! i)
                  = name_of_label (table ! i)))"
  by (simp add: update_address_of_data_map sint_add_in_range name_of_label_def)

theorem update_address_of_data_frame_witness:
  "update_address_of_data
     [\<lparr>name_label = ''X'', address_label = 0, type = DATA\<rparr>,
      \<lparr>name_label = ''M'', address_label = 100, type = CODE\<rparr>] 102
   = [\<lparr>name_label = ''X'', address_label = 102, type = DATA\<rparr>,
      \<lparr>name_label = ''M'', address_label = 100, type = CODE\<rparr>]
   \<and> sint (address_label (update_address_of_data
        [\<lparr>name_label = ''X'', address_label = 0, type = DATA\<rparr>,
         \<lparr>name_label = ''M'', address_label = 100, type = CODE\<rparr>] 102 ! 0)) = 102"
  using update_address_of_data_frame
          [of "[\<lparr>name_label = ''X'', address_label = 0, type = DATA\<rparr>,
                \<lparr>name_label = ''M'', address_label = 100, type = CODE\<rparr>]" 102]
  by simp

text \<open>At the largest address the addition wraps around, as it does on the machine.\<close>

lemma update_address_of_data_wraps:
  "map (\<lambda>r. sint (address_label r))
     (update_address_of_data [\<lparr>name_label = ''X'', address_label = 2147483647, type = DATA\<rparr>] 1)
   = [- 2147483648]"
  by simp

section \<open>Properties of the label names\<close>

lemma is_label_name_valid_loop_short:
  "i = c \<Longrightarrow> i \<le> length s \<Longrightarrow> length s \<le> 32 \<Longrightarrow> NEWLINE \<notin> set s \<Longrightarrow> NUL \<notin> set s \<Longrightarrow>
   is_label_name_valid_loop s i c =
     (if list_all alphanumeric (drop i s) then Some (length s) else None)"
proof (induction s i c rule: is_label_name_valid_loop.induct)
  case (1 s i c)
  show ?case
  proof (cases "i < length s")
    case True
    then have d: "drop c s = s ! c # drop (Suc c) s"
      using 1(2) by (simp add: Cons_nth_drop_Suc)
    have ne: "s ! i \<noteq> NEWLINE" "s ! i \<noteq> NUL"
      using True 1(5,6) by (metis nth_mem)+
    have hd_alnum: "alphanumeric (s ! c) \<longleftrightarrow> isalpha (s ! c) \<or> isdigit (s ! c)"
      by (simp add: alphanumeric_def)
    show ?thesis
      using True 1 ne
      by (subst is_label_name_valid_loop.simps)
         (simp add: d cnth_def MAX_NAME_LABEL_LENGTH_def hd_alnum)
  next
    case False
    then have "i = length s" using 1(3) by simp
    then show ?thesis
      using 1(2)
      by (subst is_label_name_valid_loop.simps) (simp add: cnth_def MAX_NAME_LABEL_LENGTH_def)
  qed
qed

lemma is_name_a_reserved_word_list:
  "is_name_a_reserved_word s \<longleftrightarrow>
     s \<in> set (spec_directives @ spec_registers @ spec_opcodes) \<and> s \<noteq> ''@r1''"
  by (simp add: is_name_a_reserved_word_def spec_directives_def spec_registers_def
      spec_opcodes_def)

lemma not_isalpha_NUL: "\<not> isalpha NUL"
  by (simp add: isalpha_def NUL_def)

text \<open>
  Claim C6, as stated, fails: the macro keyword \<open>mcro\<close> is a reserved word of the
  specification, and the validator accepts it as a label name.
\<close>

theorem label_name_macro_keyword_counterexample:
  "is_label_name_valid ''mcro'' \<and> \<not> spec_label_name_valid ''mcro''"
  by (simp add: is_label_name_valid_def is_name_a_reserved_word_def cnth_def isalpha_def
      isdigit_def is_label_name_valid_loop.simps NEWLINE_def NUL_def MAX_NAME_LABEL_LENGTH_def
      spec_label_name_valid_def spec_reserved_words_def spec_macro_keywords_def
      spec_directives_def)

text \<open>
  Claim C6, amended. For every name of at most 32 characters that contains no newline
  (and no terminator), the validator accepts the name exactly when it starts with a
  letter, contains only letters and digits, is shorter than 32 characters and is neither a
  directive, nor a register name, nor an opcode mnemonic. The macro keywords are not part
  of the test.
\<close>

theorem label_name_valid_short:
  assumes "length name \<le> 32" and "NEWLINE \<notin> set name" and "NUL \<notin> set name"
  shows "is_label_name_valid name \<longleftrightarrow>
           (name \<noteq> [] \<and> isalpha (hd name) \<and> list_all alphanumeric name \<and> length name < 32
            \<and> name \<notin> set (spec_directives @ spec_registers @ spec_opcodes))"
proof -
  have loop: "is_label_name_valid_loop name 0 0 =
                (if list_all alphanumeric name then Some (length name) else None)"
    using is_label_name_valid_loop_short[of 0 0 name] assms by simp
  have first: "isalpha (cnth name 0) \<longleftrightarrow> name \<noteq> [] \<and> isalpha (hd name)"
    by (cases name) (simp_all add: cnth_def not_isalpha_NUL)
  have at: "\<not> isalpha (hd ''@r1'')"
    by (simp add: isalpha_def)
  show ?thesis
    using assms(1) at
    by (auto simp: is_label_name_valid_def loop first is_name_a_reserved_word_list
        MAX_NAME_LABEL_LENGTH_def)
qed

theorem label_name_valid_short_witness:
  "length ''LOOP'' \<le> 32 \<and> NEWLINE \<notin> set ''LOOP'' \<and> NUL \<notin> set ''LOOP''
   \<and> is_label_name_valid ''LOOP''"
  using label_name_valid_short[of "''LOOP''"]
  by (simp add: NEWLINE_def NUL_def isalpha_def isdigit_def alphanumeric_def
      spec_directives_def spec_registers_def spec_opcodes_def)


text \<open>
  A name of 33 letters and digits is accepted: the loop stops counting at 33, and the test
  after it rejects the count 32 only.
\<close>

lemma label_name_of_33_characters: "is_label_name_valid ''a23456789012345678901234567890123''"
  by code_simp

section \<open>What the stages leave unchanged\<close>

text \<open>
  \<open>same a b\<close>: from \<open>a\<close> to \<open>b\<close> the two counters have not decreased, and the extern
  listing file and the extern flag are as they were. \<open>extern_line\<close> says of a line of the
  expanded source that it is not empty and that its first token is \<open>.extern\<close>.
  \<open>label_handled\<close> is the tokenized line as \<^verbatim>\<open>actions_on_label\<close> leaves it.
\<close>

definition same :: "file_struct \<Rightarrow> file_struct \<Rightarrow> bool" where
  "same a b \<longleftrightarrow> IC a \<le> IC b \<and> DC a \<le> DC b \<and> file_ext b = file_ext a
                 \<and> extern_flag b = extern_flag a"

definition extern_line :: "string \<Rightarrow> bool" where
  "extern_line l \<longleftrightarrow> \<not> is_line_empty l \<and> word1 (create_new_line_struct l) = ''.extern''"

definition label_handled :: "line_struct \<Rightarrow> line_struct" where
  "label_handled ls =
     (let (found, ls') = is_label ls
      in if found
         then (if get_word_status (word2 ls') = STATUS_ENTRY
                  \<or> get_word_status (word2 ls') = STATUS_EXTERN
               then ls'\<lparr>count := 0\<rparr>
               else delete_label_from_line_struct ls')
         else ls')"

lemma same_refl [simp]: "same a a"
  by (simp add: same_def)

lemma same_trans: "same a b \<Longrightarrow> same b c \<Longrightarrow> same a c"
  by (auto simp: same_def)

lemma same_update [simp]:
  "same a (b\<lparr>line_text := x1\<rparr>) = same a b"
  "same a (b\<lparr>pos_in_line := x2\<rparr>) = same a b"
  "same a (b\<lparr>count_line := x3\<rparr>) = same a b"
  "same a (b\<lparr>line_struct := x4\<rparr>) = same a b"
  "same a (b\<lparr>head_label_list := x5\<rparr>) = same a b"
  "same a (b\<lparr>head_macro_list := x6\<rparr>) = same a b"
  "same a (b\<lparr>file_am := x7\<rparr>) = same a b"
  "same a (b\<lparr>curr_macro_text := x8\<rparr>) = same a b"
  "same a (b\<lparr>curr_macro_name := x9\<rparr>) = same a b"
  "same a (b\<lparr>macro_flag := y1\<rparr>) = same a b"
  "same a (b\<lparr>temp_head_macro_list := y2\<rparr>) = same a b"
  "same a (b\<lparr>count_macro := y3\<rparr>) = same a b"
  "same a (b\<lparr>entry_flag := y4\<rparr>) = same a b"
  "same a (b\<lparr>extern_list := y5\<rparr>) = same a b"
  "same a (b\<lparr>data_array := y6\<rparr>) = same a b"
  "same a (b\<lparr>instruction_array := y7\<rparr>) = same a b"
  by (simp_all add: same_def)

lemma same_ifI: "(c \<Longrightarrow> same a x) \<Longrightarrow> (\<not> c \<Longrightarrow> same a y) \<Longrightarrow> same a (if c then x else y)"
  by simp

lemma same_caseI:
  "(m = NOT_EXIST \<Longrightarrow> same a w) \<Longrightarrow> (m = IMMEDIATE \<Longrightarrow> same a x) \<Longrightarrow> (m = DIRECT \<Longrightarrow> same a y)
   \<Longrightarrow> (m = REGISTER \<Longrightarrow> same a z) \<Longrightarrow>
   same a (case m of NOT_EXIST \<Rightarrow> w | IMMEDIATE \<Rightarrow> x | DIRECT \<Rightarrow> y | REGISTER \<Rightarrow> z)"
  by (cases m) simp_all

lemma same_add_errorI: "same a b \<Longrightarrow> same a (add_error e b)"
  by (simp add: same_def add_error_def)

lemma same_update_error_statusI: "same a b \<Longrightarrow> same a (update_error_status e b)"
  by (simp add: update_error_status_def same_add_errorI)

lemma same_IC_incI: "same a b \<Longrightarrow> same a (b\<lparr>IC := IC b + 1\<rparr>)"
  by (simp add: same_def)

lemma same_DC_incI: "same a b \<Longrightarrow> same a (b\<lparr>DC := DC b + 1\<rparr>)"
  by (simp add: same_def)

lemma same_store_instruction_wordI: "same a b \<Longrightarrow> same a (store_instruction_word w b)"
  by (simp add: same_def store_instruction_word_def)

lemma same_check_for_commaI: "same a b \<Longrightarrow> same a (snd (check_for_comma b))"
  by (simp add: check_for_comma_def same_add_errorI)

lemma same_get_next_wordI: "same a b \<Longrightarrow> same a (snd (get_next_word_without_comma b))"
  by (simp add: get_next_word_without_comma_def Let_def split: prod.splits)

lemma same_save_data_body: "same b (snd (save_data_body b))"
  by (auto simp: save_data_body_def Let_def get_next_word_without_comma_def check_for_comma_def
      same_def add_error_def split: prod.splits)

lemma same_save_data_loop: "same a (save_data_loop a)"
proof (induction a rule: save_data_loop.induct)
  case (1 sfile)
  obtain again sfile' where b: "save_data_body sfile = (again, sfile')"
    by (cases "save_data_body sfile")
  have s: "same sfile sfile'" using same_save_data_body[of sfile] b by simp
  show ?case
  proof (cases again)
    case True
    then have "same sfile' (save_data_loop sfile')" using 1 b by simp
    then show ?thesis
      using s True b by (subst save_data_loop.simps) (auto intro: same_trans)
  next
    case False
    then show ?thesis using s b by (subst save_data_loop.simps) simp
  qed
qed

lemma same_save_data_loopI: "same a b \<Longrightarrow> same a (save_data_loop b)"
  using same_trans same_save_data_loop by blast

lemma same_save_dataI: "same a b \<Longrightarrow> same a (save_data b)"
  unfolding save_data_def Let_def
  by (intro same_ifI same_add_errorI same_save_data_loopI) simp_all

lemma same_save_string_loop: "same a (save_string_loop a)"
proof (induction a rule: save_string_loop.induct)
  case (1 sfile)
  show ?case
  proof (cases "\<not> is_end_line (pos_in_line sfile) (line_text sfile)
         \<and> cnth (line_text sfile) (pos_in_line sfile) \<noteq> CHR 0x22")
    case True
    let ?n = "sfile\<lparr>data_array := (data_array sfile)
                       (DC sfile := char_to_unsigned_int (cnth (line_text sfile) (pos_in_line sfile))),
                    DC := DC sfile + 1,
                    pos_in_line := pos_in_line sfile + 1\<rparr>"
    have A: "same sfile ?n" by (simp add: same_def)
    have B: "same ?n (save_string_loop ?n)" using 1 True by simp
    have C: "same sfile (save_string_loop ?n)" using same_trans[OF A B] .
    show ?thesis
      by (subst save_string_loop.simps, subst if_P[OF True]) (rule C)
  next
    case False
    then show ?thesis by (subst save_string_loop.simps) auto
  qed
qed

lemma same_save_string_loopI: "same a b \<Longrightarrow> same a (save_string_loop b)"
  using same_trans same_save_string_loop by blast

lemma same_save_stringI: "same a b \<Longrightarrow> same a (save_string b)"
  unfolding save_string_def Let_def
  by (intro same_ifI same_add_errorI same_DC_incI) (simp_all add: same_save_string_loopI)

lemma same_add_new_label_to_list: "same b (add_new_label_to_list t b)"
  by (auto simp: add_new_label_to_list_def same_def update_error_status_def add_error_def
      split: prod.splits)

lemma line_struct_add_new_label_to_list:
  "line_struct (add_new_label_to_list t a) = line_struct a"
  by (auto simp: add_new_label_to_list_def update_error_status_def add_error_def
      split: prod.splits)

lemma same_actions_on_label: "same a (actions_on_label a)"
proof -
  obtain found ls where l: "is_label (line_struct a) = (found, ls)"
    by (cases "is_label (line_struct a)")
  let ?b = "a\<lparr>line_struct := ls, pos_in_line := skip_one_word_in_line (pos_in_line a) (line_text a)\<rparr>"
  have "same a ?b" by simp
  then have "same a (add_new_label_to_list t ?b)" for t
    using same_add_new_label_to_list same_trans by blast
  then show ?thesis
    by (simp add: actions_on_label_def l Let_def same_add_errorI)
qed

lemma line_struct_actions_on_label:
  "line_struct (actions_on_label a) = label_handled (line_struct a)"
  by (auto simp: actions_on_label_def label_handled_def Let_def add_error_def
      line_struct_add_new_label_to_list split: prod.splits)

lemma is_label_extern: "word1 ls = ''.extern'' \<Longrightarrow> is_label ls = (False, ls)"
  by (simp add: is_label_def Let_def is_label_loop.simps cnth_def NUL_def)

lemma is_label_word2: "is_label ls = (found, ls') \<Longrightarrow> word2 ls' = word2 ls \<and> count ls' = count ls"
  by (auto simp: is_label_def Let_def split: if_splits)

lemma get_word_status_extern: "get_word_status w = STATUS_EXTERN \<longleftrightarrow> w = ''.extern''"
  by (simp add: get_word_status_def)

lemma label_handled_extern:
  "count (label_handled ls) \<noteq> 0 \<and> get_word_status (word1 (label_handled ls)) = STATUS_EXTERN
   \<longleftrightarrow> word1 ls = ''.extern'' \<and> count ls \<noteq> 0"
proof (cases "word1 ls = ''.extern''")
  case True
  then show ?thesis
    by (simp add: label_handled_def is_label_extern get_word_status_extern)
next
  case False
  obtain found ls' where l: "is_label ls = (found, ls')" by (cases "is_label ls")
  show ?thesis
  proof (cases found)
    case True
    then show ?thesis
      using False l is_label_word2[OF l]
      by (auto simp: label_handled_def get_word_status_extern delete_label_from_line_struct_def
          Let_def)
  next
    case f: False
    then have "ls' = ls" using l by (auto simp: is_label_def Let_def split: if_splits)
    then show ?thesis
      using False l f by (simp add: label_handled_def get_word_status_extern)
  qed
qed

lemma create_new_line_struct_count_0:
  "count (create_new_line_struct l) = 0 \<Longrightarrow> word1 (create_new_line_struct l) = []"
  by (auto simp: create_new_line_struct_def Let_def initialize_variables_def
      split: prod.splits if_splits)

lemma same_add_extern_labels_body: "same b (snd (add_extern_labels_body b))"
  by (auto simp: add_extern_labels_body_def Let_def get_next_word_without_comma_def
      check_for_comma_def update_error_status_def same_def add_error_def split: prod.splits)

lemma same_add_extern_labels_loop: "same a (add_extern_labels_loop a)"
proof (induction a rule: add_extern_labels_loop.induct)
  case (1 sfile)
  obtain again sfile' where b: "add_extern_labels_body sfile = (again, sfile')"
    by (cases "add_extern_labels_body sfile")
  have s: "same sfile sfile'" using same_add_extern_labels_body[of sfile] b by simp
  show ?case
  proof (cases again)
    case True
    then have "same sfile' (add_extern_labels_loop sfile')" using 1 b by simp
    then show ?thesis
      using s True b by (subst add_extern_labels_loop.simps) (auto intro: same_trans)
  next
    case False
    then show ?thesis using s b by (subst add_extern_labels_loop.simps) simp
  qed
qed

lemma same_add_extern_labels_loopI: "same a b \<Longrightarrow> same a (add_extern_labels_loop b)"
  using same_trans same_add_extern_labels_loop by blast

lemma same_add_extern_labelsI:
  "same a (b\<lparr>extern_flag := True\<rparr>) \<Longrightarrow> same a (add_extern_labels b)"
  unfolding add_extern_labels_def Let_def
  by (intro same_ifI same_add_errorI same_add_extern_labels_loopI) simp_all

lemma same_update_addressing_method_typeI: "same a b \<Longrightarrow> same a (update_addressing_method_type t b)"
  by (simp add: update_addressing_method_type_def Let_def)

lemma same_check_errors_for_instructionsI: "same a b \<Longrightarrow> same a (check_errors_for_instructions t b)"
  unfolding check_errors_for_instructions_def Let_def
  by (intro same_ifI same_add_errorI)

lemma same_add_first_wordI: "same a b \<Longrightarrow> same a (add_first_word_of_instruction_to_array t b)"
  by (simp add: add_first_word_of_instruction_to_array_def same_def Let_def)

lemma same_add_the_restI: "same a b \<Longrightarrow> same a (add_the_rest_of_the_instruction_to_array b)"
  unfolding add_the_rest_of_the_instruction_to_array_def Let_def
  by (intro same_caseI same_ifI same_store_instruction_wordI)

lemma same_add_instructionsI: "same a b \<Longrightarrow> same a (add_instructions b)"
  unfolding add_instructions_def Let_def
  by (intro same_ifI same_add_the_restI same_add_first_wordI same_check_errors_for_instructionsI
      same_update_addressing_method_typeI)

lemma same_extern_flag: "same a b \<Longrightarrow> same (a\<lparr>extern_flag := x\<rparr>) (b\<lparr>extern_flag := x\<rparr>)"
  by (simp add: same_def)

lemma same_extern_flag_id: "extern_flag a = x \<Longrightarrow> a\<lparr>extern_flag := x\<rparr> = a"
  by simp

lemma first_pass_line_same:
  "same (s\<lparr>extern_flag := extern_flag s \<or> extern_line l\<rparr>) (first_pass_line s l)"
proof (cases "is_line_empty l")
  case True
  then show ?thesis
    by (simp add: first_pass_line_def extern_line_def same_def)
next
  case False
  let ?a2 = "update_line_to_array (s\<lparr>line_text := l, count_line := count_line s + 1, pos_in_line := 0\<rparr>)"
  let ?a3 = "actions_on_label ?a2"
  have ls2: "line_struct ?a2 = create_new_line_struct l"
    by (simp add: update_line_to_array_def)
  have s2: "same s ?a2" by (simp add: update_line_to_array_def)
  have s3: "same s ?a3" using same_trans[OF s2 same_actions_on_label] .
  have ls3: "line_struct ?a3 = label_handled (create_new_line_struct l)"
    by (simp add: line_struct_actions_on_label ls2)
  have ex: "extern_line l \<longleftrightarrow>
              count (line_struct ?a3) \<noteq> 0
              \<and> get_word_status (word1 (line_struct ?a3)) = STATUS_EXTERN"
    using False create_new_line_struct_count_0[of l]
    by (auto simp: ls3 label_handled_extern extern_line_def)
  have r: "first_pass_line s l =
             (if count (line_struct ?a3) = 0 then ?a3
              else first_pass_action_by_status (get_word_status (word1 (line_struct ?a3))) ?a3)"
    using False by (simp add: first_pass_line_def Let_def)
  show ?thesis
  proof (cases "extern_line l")
    case True
    have "same (s\<lparr>extern_flag := True\<rparr>) (?a3\<lparr>extern_flag := True\<rparr>)"
      using s3 by (rule same_extern_flag)
    then have "same (s\<lparr>extern_flag := True\<rparr>) (add_extern_labels ?a3)"
      by (rule same_add_extern_labelsI)
    then show ?thesis using True ex r by simp
  next
    case ne: False
    have "same s (first_pass_action_by_status st ?a3)" if "st \<noteq> STATUS_EXTERN" for st
      using that s3
      by (cases st) (simp_all add: same_save_dataI same_save_stringI same_add_instructionsI)
    then have "same s (first_pass_line s l)"
      using ne ex s3 r by auto
    then show ?thesis using ne by (simp add: same_extern_flag_id)
  qed
qed

lemma first_pass_lines_same:
  "same (s\<lparr>extern_flag := extern_flag s \<or> (\<exists>l \<in> set ls. extern_line l)\<rparr>) (first_pass_lines s ls)"
proof (induction ls arbitrary: s)
  case Nil
  then show ?case by (simp add: first_pass_lines_def same_def)
next
  case (Cons l ls)
  have 1: "same (s\<lparr>extern_flag := extern_flag s \<or> extern_line l\<rparr>) (first_pass_line s l)"
    by (rule first_pass_line_same)
  have 2: "same ((first_pass_line s l)\<lparr>extern_flag := extern_flag (first_pass_line s l)
              \<or> (\<exists>l \<in> set ls. extern_line l)\<rparr>) (first_pass_lines (first_pass_line s l) ls)"
    by (rule Cons.IH)
  show ?case
    using 1 2 by (auto simp: same_def first_pass_lines_def)
qed


lemma same_skip_on_label: "same a b \<Longrightarrow> same a (skip_on_label b)"
  by (simp add: skip_on_label_def Let_def split: prod.splits)

lemma same_mark_entry_labels_body: "same b (snd (mark_entry_labels_body b))"
  by (auto simp: mark_entry_labels_body_def Let_def get_next_word_without_comma_def
      check_for_comma_def update_error_status_def same_def add_error_def split: prod.splits)

lemma same_mark_entry_labels_loop: "same a (mark_entry_labels_loop a)"
proof (induction a rule: mark_entry_labels_loop.induct)
  case (1 sfile)
  obtain again sfile' where b: "mark_entry_labels_body sfile = (again, sfile')"
    by (cases "mark_entry_labels_body sfile")
  have s: "same sfile sfile'" using same_mark_entry_labels_body[of sfile] b by simp
  show ?case
  proof (cases again)
    case True
    then have "same sfile' (mark_entry_labels_loop sfile')" using 1 b by simp
    then show ?thesis
      using s True b by (subst mark_entry_labels_loop.simps) (auto intro: same_trans)
  next
    case False
    then show ?thesis using s b by (subst mark_entry_labels_loop.simps) simp
  qed
qed

lemma same_mark_entry_labels_loopI: "same a b \<Longrightarrow> same a (mark_entry_labels_loop b)"
  using same_trans same_mark_entry_labels_loop by blast

lemma same_mark_entry_labelsI: "same a b \<Longrightarrow> same a (mark_entry_labels b)"
  unfolding mark_entry_labels_def Let_def
  by (intro same_ifI same_add_errorI same_mark_entry_labels_loopI) simp_all

lemma same_complete_direct_operandI: "same a b \<Longrightarrow> same a (complete_direct_operand w b)"
  unfolding complete_direct_operand_def Let_def add_extern_label_to_array_def
  by (cases "search_in_list_label (head_label_list b) w")
     (simp_all add: same_add_errorI same_store_instruction_wordI)

lemma same_update_the_restI:
  "same a b \<Longrightarrow> same a (update_the_rest_of_the_instruction_to_array b)"
  unfolding update_the_rest_of_the_instruction_to_array_def Let_def
  by (intro same_caseI same_ifI same_IC_incI same_complete_direct_operandI)

lemma same_complete_missing_instructionsI:
  "same a b \<Longrightarrow> same a (complete_missing_instructions b)"
  unfolding complete_missing_instructions_def Let_def
  by (intro same_update_the_restI same_IC_incI same_update_addressing_method_typeI)

lemma second_pass_line_same: "same s (second_pass_line s l)"
proof -
  have act: "same s (second_pass_action_by_status st b)" if "same s b" for st b
    using that
    by (cases st) (simp_all add: same_mark_entry_labelsI same_complete_missing_instructionsI)
  let ?b = "skip_on_label (update_line_to_array
              (s\<lparr>line_text := l, count_line := count_line s + 1, pos_in_line := 0\<rparr>))"
  have b: "same s ?b"
    by (rule same_skip_on_label) (simp add: update_line_to_array_def)
  show ?thesis
    using b act[OF b] by (simp add: second_pass_line_def Let_def)
qed

lemma second_pass_lines_same: "same s (second_pass_lines s ls)"
proof (induction ls arbitrary: s)
  case Nil
  then show ?case by (simp add: second_pass_lines_def)
next
  case (Cons l ls)
  then show ?case
    using second_pass_line_same[of s l] same_trans
    by (fastforce simp: second_pass_lines_def)
qed

lemma same_get_first_word_status: "same b (snd (get_first_word_status b))"
  by (simp add: get_first_word_status_def Let_def same_add_errorI)

lemma same_pre_assembly_action: "same a b \<Longrightarrow> same a (pre_assembly_action_by_status st b)"
  by (cases st)
     (simp_all add: paste_macro_text_def update_name_of_macro_def add_new_macro_to_list_def
        add_text_to_macro_def paste_code_text_def Let_def same_add_errorI
        same_update_error_statusI split: prod.splits)

lemma pre_assembly_line_same: "same s (pre_assembly_line s l)"
proof -
  let ?b = "s\<lparr>line_text := l, count_line := count_line s + 1,
               line_struct := create_new_line_struct l\<rparr>"
  have "same s ?b" by simp
  then have "same s (snd (get_first_word_status ?b))"
    using same_get_first_word_status same_trans by blast
  then show ?thesis
    by (simp add: pre_assembly_line_def Let_def same_pre_assembly_action split: prod.splits)
       (metis snd_conv same_pre_assembly_action)
qed

lemma pre_assembly_lines_same: "same s (pre_assembly_lines s ls)"
proof (induction ls arbitrary: s)
  case Nil
  then show ?case by (simp add: pre_assembly_lines_def)
next
  case (Cons l ls)
  then show ?case
    using pre_assembly_line_same[of s l] same_trans
    by (fastforce simp: pre_assembly_lines_def)
qed


text \<open>
  The lines of the expanded source: what the first pass reads from the file that the macro
  expander wrote.
\<close>

definition expanded_lines :: "string \<Rightarrow> string list" where
  "expanded_lines source_text =
     file_lines (file_am (start_pre_assembly (create_new_file_struct source_text)))"

text \<open>
  The result of a translation is the state \<open>t\<close> at the end of the loop of the second
  pass, with the output files added if \<open>t\<close> carries no error, and the list of labels freed.
\<close>

lemma assembly_shape:
  obtains t where "FIRST_CELL_IN_MEMORY \<le> IC t" and "0 \<le> DC t" and "file_ext t = None"
    and "extern_flag t = (\<exists>l \<in> set (expanded_lines source_text). extern_line l)"
    and "start_assembly_process_on_file source_text =
           (if \<not> error_flag t then create_all_files t else t)\<lparr>head_label_list := []\<rparr>"
proof -
  define s0 where "s0 = create_new_file_struct source_text"
  define s1 where "s1 = start_pre_assembly s0"
  define f where "f = first_pass_lines (s1\<lparr>count_line := 0\<rparr>) (file_lines (file_am s1))"
  define s2 where "s2 = (if \<not> error_flag f then update_address_label_of_data f else f)"
  define i where "i = s2\<lparr>count_line := 0, extern_list := [], IC := FIRST_CELL_IN_MEMORY\<rparr>"
  define t where "t = second_pass_lines i (file_lines (file_am i))"
  have 0: "DC s0 = 0" "file_ext s0 = None" "extern_flag s0 = False"
    by (simp_all add: s0_def create_new_file_struct_def)
  have "same s0 (pre_assembly_lines (s0\<lparr>macro_flag := False, file_am := []\<rparr>) ls)" for ls
    using same_trans[OF _ pre_assembly_lines_same, of s0 "s0\<lparr>macro_flag := False, file_am := []\<rparr>"]
    by simp
  then have 1: "same s0 s1"
    by (simp add: s1_def start_pre_assembly_def pre_assembly_on_curr_file_def Let_def)
  have 2: "same (s1\<lparr>count_line := 0,
                    extern_flag := extern_flag s1 \<or> (\<exists>l \<in> set (file_lines (file_am s1)). extern_line l)\<rparr>) f"
    using first_pass_lines_same[of "s1\<lparr>count_line := 0\<rparr>" "file_lines (file_am s1)"]
    by (simp add: f_def)
  have 3: "DC s2 = DC f" "file_ext s2 = file_ext f" "extern_flag s2 = extern_flag f"
    by (simp_all add: s2_def update_address_label_of_data_def)
  have 4: "same i t"
    by (simp add: t_def second_pass_lines_same)
  have e: "expanded_lines source_text = file_lines (file_am s1)"
    by (simp add: expanded_lines_def s1_def s0_def)
  have a: "FIRST_CELL_IN_MEMORY \<le> IC t"
    using 4 by (simp add: same_def i_def)
  have b: "0 \<le> DC t"
    using 0 1 2 3 4 by (simp add: same_def i_def)
  have c: "file_ext t = None"
    using 0 1 2 3 4 by (simp add: same_def i_def)
  have d: "extern_flag t = (\<exists>l \<in> set (expanded_lines source_text). extern_line l)"
    using 0 1 2 3 4 by (simp add: same_def i_def e)
  have r: "start_assembly_process_on_file source_text =
           (if \<not> error_flag t then create_all_files t else t)\<lparr>head_label_list := []\<rparr>"
    by (simp add: start_assembly_process_on_file_def Let_def start_second_pass_def
        second_pass_on_curr_file_def start_first_pass_def first_pass_on_curr_file_def
        t_def i_def s2_def f_def s1_def s0_def)
  show ?thesis using that[OF a b c d r] .
qed

lemma convert_binary_to_64base_line:
  "length (convert_binary_to_64base w) = 3 \<and> convert_binary_to_64base w ! 2 = NEWLINE
   \<and> convert_binary_to_64base w ! 0 \<in> set spec_base64_alphabet
   \<and> convert_binary_to_64base w ! 1 \<in> set spec_base64_alphabet"
proof -
  have "unat (get_specific_bits w 6 11) < 64" "unat (get_specific_bits w 0 5) < 64"
    by (simp_all add: unat_get_specific_bits_6_11 unat_get_specific_bits_0_5)
  then show ?thesis
    using nth_mem[of "unat (get_specific_bits w 6 11)" base64_table]
      nth_mem[of "unat (get_specific_bits w 0 5)" base64_table]
    by (simp add: convert_binary_to_64base_def base64_table_length
        base64_table_is_alphabet[symmetric])
qed

text \<open>A word line of the object file: two characters of the alphabet and a newline.\<close>

definition object_word_line :: "string \<Rightarrow> bool" where
  "object_word_line w \<longleftrightarrow>
     length w = 3 \<and> w ! 0 \<in> set spec_base64_alphabet \<and> w ! 1 \<in> set spec_base64_alphabet
     \<and> w ! 2 = NEWLINE"

text \<open>
  Claim C3, amended. When a source file is translated without any diagnostic, the object
  file is the header line followed by the word lines, and the number of word lines is
  \<open>(IC - FIRST_CELL_IN_MEMORY) + DC\<close> for the final counters: the instruction counter
  starts at the base 100, which is not part of the count.
\<close>

theorem object_file_word_count:
  "\<not> error_flag (start_assembly_process_on_file source_text) \<longrightarrow>
     file_ob (start_assembly_process_on_file source_text) =
       Some (object_file_header (start_assembly_process_on_file source_text)
             @ concat (object_file_words (start_assembly_process_on_file source_text)))
     \<and> list_all object_word_line (object_file_words (start_assembly_process_on_file source_text))
     \<and> int (length (object_file_words (start_assembly_process_on_file source_text))) =
         (IC (start_assembly_process_on_file source_text) - FIRST_CELL_IN_MEMORY)
         + DC (start_assembly_process_on_file source_text)"
proof -
  obtain t where t: "FIRST_CELL_IN_MEMORY \<le> IC t" "0 \<le> DC t"
    and r: "start_assembly_process_on_file source_text =
           (if \<not> error_flag t then create_all_files t else t)\<lparr>head_label_list := []\<rparr>"
    using assembly_shape[of source_text] by blast
  have w: "list_all object_word_line (object_file_words x)" for x
    using convert_binary_to_64base_line
    by (auto simp: object_file_words_def list_all_iff object_word_line_def)
  show ?thesis
    using t w
    by (auto simp: r create_all_files_def create_object_file_def Let_def object_file_header_def
        object_file_words_def)
qed

text \<open>
  Claim C9, amended. When a source file is translated without any diagnostic, the extern
  listing file is written if and only if some line of the expanded source is an
  \<open>.extern\<close> directive; whether a use of an external label was encoded plays no part.
  When the file is written, its content is the extern list of the final state, the lines
  that the second pass recorded.
\<close>

theorem extern_file_written:
  "\<not> error_flag (start_assembly_process_on_file source_text) \<longrightarrow>
     (file_ext (start_assembly_process_on_file source_text) \<noteq> None
      \<longleftrightarrow> (\<exists>l \<in> set (expanded_lines source_text). extern_line l))
     \<and> (file_ext (start_assembly_process_on_file source_text) \<noteq> None
        \<longrightarrow> file_ext (start_assembly_process_on_file source_text)
             = Some (extern_list (start_assembly_process_on_file source_text)))"
proof -
  obtain t where t: "file_ext t = None"
      "extern_flag t = (\<exists>l \<in> set (expanded_lines source_text). extern_line l)"
    and r: "start_assembly_process_on_file source_text =
           (if \<not> error_flag t then create_all_files t else t)\<lparr>head_label_list := []\<rparr>"
    using assembly_shape[of source_text] by blast
  show ?thesis
    using t by (auto simp: r create_all_files_def create_object_file_def Let_def)
qed

text \<open>
  Claim C3, as stated, fails: a source of one comment line is translated without
  diagnostic, the object file holds the header and no word line, and the final counters
  add up to 100.
\<close>

theorem object_file_word_count_counterexample:
  "\<not> error_flag (start_assembly_process_on_file (''; a comment'' @ [NEWLINE]))
   \<and> file_ob (start_assembly_process_on_file (''; a comment'' @ [NEWLINE]))
       = Some (''0'' @ [TAB] @ ''0'' @ [NEWLINE])
   \<and> int (length (object_file_words (start_assembly_process_on_file (''; a comment'' @ [NEWLINE]))))
       \<noteq> IC (start_assembly_process_on_file (''; a comment'' @ [NEWLINE]))
         + DC (start_assembly_process_on_file (''; a comment'' @ [NEWLINE]))"
  by code_simp

text \<open>
  Claim C9, as stated, fails: the source \<open>.extern K\<close> is translated without diagnostic,
  no use of \<open>K\<close> is encoded, and the extern listing file is written, empty.
\<close>

theorem extern_file_written_counterexample:
  "\<not> error_flag (start_assembly_process_on_file (''.extern K'' @ [NEWLINE]))
   \<and> diagnostics (start_assembly_process_on_file (''.extern K'' @ [NEWLINE])) = []
   \<and> extern_list (start_assembly_process_on_file (''.extern K'' @ [NEWLINE])) = []
   \<and> file_ext (start_assembly_process_on_file (''.extern K'' @ [NEWLINE])) = Some []"
  by code_simp

theorem object_file_word_count_witness:
  "\<not> error_flag (start_assembly_process_on_file (''mov @r1,@r2'' @ [NEWLINE]))
   \<and> int (length (object_file_words (start_assembly_process_on_file (''mov @r1,@r2'' @ [NEWLINE]))))
       = (IC (start_assembly_process_on_file (''mov @r1,@r2'' @ [NEWLINE])) - FIRST_CELL_IN_MEMORY)
         + DC (start_assembly_process_on_file (''mov @r1,@r2'' @ [NEWLINE]))"
proof -
  have h: "\<not> error_flag (start_assembly_process_on_file (''mov @r1,@r2'' @ [NEWLINE]))"
    by code_simp
  show ?thesis
    using object_file_word_count[of "''mov @r1,@r2'' @ [NEWLINE]"] h by blast
qed

theorem extern_file_written_witness:
  "\<not> error_flag (start_assembly_process_on_file (''.extern K'' @ [NEWLINE] @ ''jmp K'' @ [NEWLINE]))
   \<and> (\<exists>l \<in> set (expanded_lines (''.extern K'' @ [NEWLINE] @ ''jmp K'' @ [NEWLINE])). extern_line l)
   \<and> file_ext (start_assembly_process_on_file (''.extern K'' @ [NEWLINE] @ ''jmp K'' @ [NEWLINE]))
     = Some (extern_list
               (start_assembly_process_on_file (''.extern K'' @ [NEWLINE] @ ''jmp K'' @ [NEWLINE])))"
proof -
  have h: "\<not> error_flag (start_assembly_process_on_file (''.extern K'' @ [NEWLINE] @ ''jmp K'' @ [NEWLINE]))"
    by code_simp
  have e: "file_ext (start_assembly_process_on_file (''.extern K'' @ [NEWLINE] @ ''jmp K'' @ [NEWLINE]))
       \<noteq> None"
    by code_simp
  show ?thesis
    using extern_file_written[of "''.extern K'' @ [NEWLINE] @ ''jmp K'' @ [NEWLINE]"] h e by blast
qed

text \<open>
  With two external labels of which one is used, the file holds the line of that use.
\<close>

lemma extern_file_of_one_use:
  "\<not> error_flag (start_assembly_process_on_file
        (''.extern K'' @ [NEWLINE] @ ''.extern L'' @ [NEWLINE] @ ''jmp L'' @ [NEWLINE]))
   \<and> file_ext (start_assembly_process_on_file
        (''.extern K'' @ [NEWLINE] @ ''.extern L'' @ [NEWLINE] @ ''jmp L'' @ [NEWLINE]))
     = Some (''L'' @ [TAB] @ ''101'' @ [NEWLINE])"
  by code_simp


section \<open>Properties of the first word of an instruction\<close>



text \<open>
  \<open>bare_sign_operand\<close>: the next operand of the line, after blanks and tabs, is a sign
  followed at once by a blank, a tab, a newline, a comma or the end of the line.
\<close>

definition bare_sign_operand :: "file_struct \<Rightarrow> bool" where
  "bare_sign_operand sfile =
     (let p = skip_white_character (pos_in_line sfile) (line_text sfile);
          c = cnth (line_text sfile) p;
          d = cnth (line_text sfile) (p + 1)
      in (c = CHR ''+'' \<or> c = CHR ''-'')
         \<and> (d = SPACE \<or> d = TAB \<or> d = NEWLINE \<or> d = CHR '','' \<or> d = NUL))"

















text \<open>The line \<open>mov @r1,@r2\<close> in a fresh file structure.\<close>

definition first_word_example :: file_struct where
  "first_word_example =
     (create_new_file_struct [])\<lparr>line_struct := create_new_line_struct (''mov @r1,@r2'' @ [NEWLINE])\<rparr>"


text \<open>
  The lines \<open>inc LEN\<close>, of one operand, and \<open>stop\<close>, of none, are encoded without error;
  their first words are \<open>0 | 3 * 4 | 7 * 32\<close> and \<open>15 * 32\<close>.
\<close>

lemma first_word_of_one_operand_and_none:
  "\<not> error_flag (add_instructions
       ((create_new_file_struct [])\<lparr>line_struct := create_new_line_struct (''inc LEN'' @ [NEWLINE])\<rparr>))
   \<and> instruction_array (add_instructions
       ((create_new_file_struct [])\<lparr>line_struct := create_new_line_struct (''inc LEN'' @ [NEWLINE])\<rparr>))
       100 = 236
   \<and> \<not> error_flag (add_instructions
       ((create_new_file_struct [])\<lparr>line_struct := create_new_line_struct (''stop'' @ [NEWLINE])\<rparr>))
   \<and> instruction_array (add_instructions
       ((create_new_file_struct [])\<lparr>line_struct := create_new_line_struct (''stop'' @ [NEWLINE])\<rparr>))
       100 = 480"
  by code_simp

lemma first_word_example_value:
  "instruction_array (add_instructions first_word_example) 100 = 2580
   \<and> destination (line_struct (add_instructions first_word_example)) = REGISTER
   \<and> source (line_struct (add_instructions first_word_example)) = REGISTER"
  by code_simp

section \<open>Properties of the macro names\<close>

text \<open>
  Claim C7 on the register \<open>@r1\<close>: the definition of a macro of that name raises no
  diagnostic, the macro enters the table, and a later line \<open>@r1\<close> is replaced by its
  body. \<^verbatim>\<open>is_name_a_reserved_word\<close> lists the seven other registers and leaves this
  one out.
\<close>

theorem macro_named_r1_accepted:
  "diagnostics (pre_assembly_lines (create_new_file_struct [])
       [''mcro @r1'' @ [NEWLINE], ''mov @r1,@r2'' @ [NEWLINE], ''endmcro'' @ [NEWLINE]]) = []
   \<and> map name_macro (head_macro_list (pre_assembly_lines (create_new_file_struct [])
       [''mcro @r1'' @ [NEWLINE], ''mov @r1,@r2'' @ [NEWLINE], ''endmcro'' @ [NEWLINE]]))
       = [''@r1'']
   \<and> diagnostics (start_assembly_process_on_file
        (''mcro @r1'' @ [NEWLINE] @ ''mov @r1,@r2'' @ [NEWLINE] @ ''endmcro'' @ [NEWLINE]
         @ ''@r1'' @ [NEWLINE])) = []
   \<and> file_am (start_assembly_process_on_file
        (''mcro @r1'' @ [NEWLINE] @ ''mov @r1,@r2'' @ [NEWLINE] @ ''endmcro'' @ [NEWLINE]
         @ ''@r1'' @ [NEWLINE])) = ''mov @r1,@r2'' @ [NEWLINE]"
  by code_simp

lemma reserved_macro_name_rejected:
  "is_name_a_reserved_word (curr_macro_name sfile) \<Longrightarrow>
   head_macro_list (add_new_macro_to_list sfile) = head_macro_list sfile
   \<and> diagnostics (add_new_macro_to_list sfile)
       = diagnostics sfile @ [(MACRO_NAME_IS_INSTRUCTION_OR_DIRECTIVE, count_line sfile)]"
  by (simp add: add_new_macro_to_list_def Let_def add_error_def)

lemma registers_reserved_but_r1:
  "is_name_a_reserved_word ''@r0'' \<and> \<not> is_name_a_reserved_word ''@r1''
   \<and> is_name_a_reserved_word ''@r2'' \<and> is_name_a_reserved_word ''@r3''
   \<and> is_name_a_reserved_word ''@r4'' \<and> is_name_a_reserved_word ''@r5''
   \<and> is_name_a_reserved_word ''@r6'' \<and> is_name_a_reserved_word ''@r7''"
  by (simp add: is_name_a_reserved_word_def)

section \<open>Properties of the data directive\<close>

text \<open>
  Claim C8 on a trailing comma: the line \<open>.data 1,2,\<close> raises no diagnostic, and a third
  word, 0, is stored after the two values listed.
\<close>

theorem data_trailing_comma_accepted:
  "\<not> error_flag (start_assembly_process_on_file (''.data 1,2,'' @ [NEWLINE]))
   \<and> diagnostics (start_assembly_process_on_file (''.data 1,2,'' @ [NEWLINE])) = []
   \<and> DC (start_assembly_process_on_file (''.data 1,2,'' @ [NEWLINE])) = 3
   \<and> data_array (start_assembly_process_on_file (''.data 1,2,'' @ [NEWLINE])) 2 = 0
   \<and> file_ob (start_assembly_process_on_file (''.data 1,2,'' @ [NEWLINE]))
       = Some (''0'' @ [TAB] @ ''3'' @ [NEWLINE] @ ''AB'' @ [NEWLINE] @ ''AC'' @ [NEWLINE]
               @ ''AA'' @ [NEWLINE])"
  by code_simp

lemma misplaced_comma:
  "cnth (line_text sfile) (skip_white_character (pos_in_line sfile) (line_text sfile)) = CHR '',''
   \<Longrightarrow> save_data_body sfile =
        (False, add_error INVALID_COMMA_POSITION
                  (sfile\<lparr>pos_in_line := skip_white_character (pos_in_line sfile) (line_text sfile)\<rparr>))"
  by (simp add: save_data_body_def Let_def)

lemma comma_examples:
  "diagnostics (start_assembly_process_on_file (''.data ,1'' @ [NEWLINE]))
     = [(INVALID_COMMA_POSITION, 1)]
   \<and> diagnostics (start_assembly_process_on_file (''.data 1,,2'' @ [NEWLINE]))
     = [(INVALID_COMMA_POSITION, 1)]
   \<and> diagnostics (start_assembly_process_on_file (''.data,1'' @ [NEWLINE]))
     = [(MUST_PROVIDE_VALUES_TO_DATA, 1)]"
  by code_simp

lemma sign_word:
  assumes "cnth t p = CHR ''+'' \<or> cnth t p = CHR ''-''"
    and "cnth t (p + 1) = SPACE \<or> cnth t (p + 1) = TAB \<or> cnth t (p + 1) = NEWLINE
         \<or> cnth t (p + 1) = CHR '','' \<or> cnth t (p + 1) = NUL"
  shows "get_next_word_copy t p = ([cnth t p], p + 1)"
proof -
  have 1: "get_next_word_copy t (p + 1) = ([], p + 1)"
    using assms(2) by (subst get_next_word_copy.simps) auto
  show ?thesis
    using assms(1) 1
    by (subst get_next_word_copy.simps) (auto simp: SPACE_def TAB_def NEWLINE_def NUL_def)
qed

lemma is_number_sign: "is_number ''+'' \<and> is_number ''-'' \<and> is_number []"
  by (simp add: is_number_def is_number_loop.simps cnth_def Let_def)

lemma atoi_sign: "atoi ''+'' = 0 \<and> atoi ''-'' = 0"
  by (simp add: atoi_def isspace_def)

text \<open>
  Claim C10. The test for a number accepts a bare sign and the empty token, so the
  classifier of operands answers \<open>IMMEDIATE\<close> for a bare sign; and an operand of
  \<open>.data\<close> that is a bare sign is stored as the word 0, the data counter advances, and
  no diagnostic \<open>DATA_NEED_NUM_VALUE\<close> is added.
\<close>

theorem bare_sign_is_number:
  "is_number ''+'' \<and> is_number ''-'' \<and> is_number []
   \<and> get_addressing_method_type ''+'' = IMMEDIATE
   \<and> get_addressing_method_type ''-'' = IMMEDIATE
   \<and> (bare_sign_operand sfile \<longrightarrow>
        DC (snd (save_data_body sfile)) = DC sfile + 1
        \<and> data_array (snd (save_data_body sfile)) (DC sfile) = 0
        \<and> (\<forall>n. (DATA_NEED_NUM_VALUE, n) \<in> set (diagnostics (snd (save_data_body sfile)))
                \<longrightarrow> (DATA_NEED_NUM_VALUE, n) \<in> set (diagnostics sfile)))"
proof -
  have a: "get_addressing_method_type ''+'' = IMMEDIATE \<and> get_addressing_method_type ''-'' = IMMEDIATE"
    using is_number_sign by (simp add: get_addressing_method_type_def cnth_def NUL_def)
  have b: "DC (snd (save_data_body sfile)) = DC sfile + 1
        \<and> data_array (snd (save_data_body sfile)) (DC sfile) = 0
        \<and> (\<forall>n. (DATA_NEED_NUM_VALUE, n) \<in> set (diagnostics (snd (save_data_body sfile)))
                \<longrightarrow> (DATA_NEED_NUM_VALUE, n) \<in> set (diagnostics sfile))"
    if h: "bare_sign_operand sfile"
  proof -
    let ?t = "line_text sfile"
    let ?p = "skip_white_character (pos_in_line sfile) ?t"
    have c: "cnth ?t ?p = CHR ''+'' \<or> cnth ?t ?p = CHR ''-''"
      and d: "cnth ?t (?p + 1) = SPACE \<or> cnth ?t (?p + 1) = TAB \<or> cnth ?t (?p + 1) = NEWLINE
         \<or> cnth ?t (?p + 1) = CHR '','' \<or> cnth ?t (?p + 1) = NUL"
      using h by (simp_all add: bare_sign_operand_def Let_def)
    have w: "get_next_word_copy ?t ?p = ([cnth ?t ?p], ?p + 1)"
      using sign_word[OF c d] .
    have n: "is_number [cnth ?t ?p]" "atoi [cnth ?t ?p] = 0"
      using c is_number_sign atoi_sign by auto
    have nc: "cnth ?t ?p \<noteq> CHR '',''" using c by auto
    show ?thesis
      using nc n
      by (simp add: save_data_body_def Let_def get_next_word_without_comma_def w
          check_for_comma_def add_error_def)
  qed
  show ?thesis using is_number_sign a b by blast
qed

text \<open>The line \<open>.data +\<close>, read up to the end of the directive.\<close>

definition bare_sign_example :: file_struct where
  "bare_sign_example = (create_new_file_struct [])\<lparr>line_text := ''.data +'' @ [NEWLINE], pos_in_line := 5\<rparr>"

theorem bare_sign_is_number_witness:
  "bare_sign_operand bare_sign_example
   \<and> DC (snd (save_data_body bare_sign_example)) = DC bare_sign_example + 1
   \<and> data_array (snd (save_data_body bare_sign_example)) (DC bare_sign_example) = 0"
proof -
  have h: "bare_sign_operand bare_sign_example"
    by code_simp
  show ?thesis
    using bare_sign_is_number[of bare_sign_example] h by blast
qed

lemma bare_sign_line:
  "diagnostics (start_assembly_process_on_file (''.data +'' @ [NEWLINE])) = []
   \<and> DC (start_assembly_process_on_file (''.data +'' @ [NEWLINE])) = 1
   \<and> data_array (start_assembly_process_on_file (''.data +'' @ [NEWLINE])) 0 = 0"
  by code_simp


end
